theory Spec2Isabelle
  imports Complex_Main "HOL-Library.Sublist" "HOL-Library.AList"
begin

section \<open>Outcomes of Python code\<close>

text \<open>
  The program is a Streamlit script, \<^verbatim>\<open>dashboard.py\<close>. A call of one of its functions
  returns a value, raises an exception that nothing in the script catches, or never
  returns (the script sets no timeout on a request or on executed code).
\<close>

datatype pyerror =
    KeyError string
  | ValueError string
  | TypeError string
  | AttributeError string
  | HTTPError string
  | ServiceError string
  | ProgramError string
  | ChartError string

datatype 'a outcome = Returned 'a | Raised pyerror | Hangs

definition and_then :: "'a outcome \<Rightarrow> ('a \<Rightarrow> 'b outcome) \<Rightarrow> 'b outcome" where
  "and_then m f = (case m of Returned x \<Rightarrow> f x | Raised e \<Rightarrow> Raised e | Hangs \<Rightarrow> Hangs)"

section \<open>Strings: \<^verbatim>\<open>str.strip\<close> and \<^verbatim>\<open>str.replace\<close>\<close>

text \<open>
  A Python string is modelled as a list of characters with code points below 256.
  \<^verbatim>\<open>isspace\<close> is Python's \<^verbatim>\<open>str.isspace\<close> on that range: tab to carriage return,
  the four separators 0x1C to 0x1F, space, NEL (0x85) and the no-break space (0xA0).
\<close>

definition isspace :: "char \<Rightarrow> bool" where
  "isspace c = (of_char c \<in> set [9, 10, 11, 12, 13, 28, 29, 30, 31, 32, 133, 160 :: nat])"

text \<open>
  \<^verbatim>\<open>s.strip(chars)\<close> removes from both ends every character that is whitespace
  (\<open>chars\<close> is \<open>None\<close>) or that occurs in \<open>chars\<close>: the argument is a set of characters,
  not a prefix.
\<close>

definition strip_pred :: "string option \<Rightarrow> char \<Rightarrow> bool" where
  "strip_pred chars c = (case chars of None \<Rightarrow> isspace c | Some cs \<Rightarrow> c \<in> set cs)"

definition str_lstrip :: "string option \<Rightarrow> string \<Rightarrow> string" where
  "str_lstrip chars s = dropWhile (strip_pred chars) s"

definition str_rstrip :: "string option \<Rightarrow> string \<Rightarrow> string" where
  "str_rstrip chars s = rev (dropWhile (strip_pred chars) (rev s))"

definition str_strip :: "string option \<Rightarrow> string \<Rightarrow> string" where
  "str_strip chars s = str_rstrip chars (str_lstrip chars s)"

text \<open>
  \<^verbatim>\<open>s.replace(old, new)\<close> scans from the left and replaces each occurrence of \<open>old\<close> it
  meets, continuing after the occurrence; the text it has produced is not scanned again.
  With an empty \<open>old\<close>, \<open>new\<close> is inserted before every character and at the end.
\<close>

function str_replace :: "string \<Rightarrow> string \<Rightarrow> string \<Rightarrow> string" where
  "str_replace old new s =
     (if old = [] then new @ concat (map (\<lambda>c. c # new) s)
      else if s = [] then []
      else if prefix old s then new @ str_replace old new (drop (length old) s)
      else hd s # str_replace old new (tl s))"
  by pat_completeness auto
termination
  by (relation "measure (\<lambda>(old, new, s). length s)") auto

declare str_replace.simps [simp del]

text \<open>
  \<^verbatim>\<open>clean_python_code\<close> (line 38):
  \<^verbatim>\<open>raw_code.strip().strip("```").replace("python", "").strip()\<close>.
\<close>

definition clean_python_code :: "string \<Rightarrow> string" where
  "clean_python_code raw_code =
     str_strip None
       (str_replace ''python'' '''' (str_strip (Some ''```'') (str_strip None raw_code)))"

section \<open>Floating-point cells\<close>

text \<open>
  A numeric column of a pandas frame holds binary64 values. The model keeps the special
  values apart (both zeros, both infinities, NaN) and divides as IEEE 754 does on them.
  A finite non-zero value is a real number and the quotient of two of them is the exact
  quotient: binary64 rounding, overflow and underflow of finite quotients are not
  modelled. \<open>Fin 0\<close> is the positive zero.
\<close>

datatype pyfloat = Fin real | NegZero | PInf | NInf | NaN

definition is_zero :: "pyfloat \<Rightarrow> bool" where
  "is_zero x = (x = Fin 0 \<or> x = NegZero)"

definition is_inf :: "pyfloat \<Rightarrow> bool" where
  "is_inf x = (x = PInf \<or> x = NInf)"

fun sign_bit :: "pyfloat \<Rightarrow> bool" where
  "sign_bit (Fin r) = (r < 0)"
| "sign_bit NegZero = True"
| "sign_bit PInf = False"
| "sign_bit NInf = True"
| "sign_bit NaN = False"

fun magnitude :: "pyfloat \<Rightarrow> real" where
  "magnitude (Fin r) = r"
| "magnitude x = 0"

text \<open>
  Division of two cells, as numpy's \<^verbatim>\<open>true_divide\<close> computes it under pandas (which
  silences the floating-point warnings): no case raises.
\<close>

definition float_truediv :: "pyfloat \<Rightarrow> pyfloat \<Rightarrow> pyfloat" where
  "float_truediv a b =
     (if a = NaN \<or> b = NaN then NaN
      else if is_inf a \<and> is_inf b then NaN
      else if is_zero a \<and> is_zero b then NaN
      else if is_inf a \<or> is_zero b then (if sign_bit a = sign_bit b then PInf else NInf)
      else if is_zero a \<or> is_inf b then (if sign_bit a = sign_bit b then Fin 0 else NegZero)
      else Fin (magnitude a / magnitude b))"

section \<open>Quarterly records and data frames\<close>

text \<open>
  A raw quarterly record is one JSON object of the data source. The program reads five
  of its keys; each is optional here, \<open>None\<close> standing for a key the object lacks. A
  numeric key that is present holds a JSON number and \<open>date\<close> holds text: the model's
  types exclude objects in which a numeric key holds text or \<^verbatim>\<open>null\<close>. Keys the
  program never reads are left out.
\<close>

record raw_record =
  date :: "string option"
  revenue :: "pyfloat option"
  total_liabilities :: "pyfloat option"
  total_equity :: "pyfloat option"
  total_assets :: "pyfloat option"

record timestamp =
  year :: nat
  month :: nat
  day :: nat

text \<open>
  A frame is an ordered list of named columns of equal length. A missing value is NaN
  in a numeric column, \<open>None\<close> (pandas' NaN or NaT) in a column of text or of timestamps.
\<close>

datatype column =
    Floats "pyfloat list"
  | Strings "string option list"
  | Times "timestamp option list"

type_synonym frame = "(string \<times> column) list"

definition missing_nan :: "pyfloat option \<Rightarrow> pyfloat" where
  "missing_nan v = (case v of None \<Rightarrow> NaN | Some x \<Rightarrow> x)"

definition float_column ::
  "string \<Rightarrow> (raw_record \<Rightarrow> pyfloat option) \<Rightarrow> raw_record list \<Rightarrow> frame" where
  "float_column name field records =
     (if list_ex (\<lambda>r. field r \<noteq> None) records
      then [(name, Floats (map (\<lambda>r. missing_nan (field r)) records))] else [])"

text \<open>
  \<^verbatim>\<open>pd.DataFrame(records)\<close> on a list of objects: a column for every key that some
  record has, one row per record, a missing value where a record lacks the key. So a
  column is absent only when no record has the key, which includes the empty list.
  pandas orders the columns by first appearance of the keys; the model lists them in
  the order of \<open>raw_record\<close>, and nothing the program computes depends on that order.
\<close>

definition DataFrame :: "raw_record list \<Rightarrow> frame" where
  "DataFrame records =
     (if list_ex (\<lambda>r. date r \<noteq> None) records then [(''date'', Strings (map date records))] else [])
     @ float_column ''revenue'' revenue records
     @ float_column ''total_liabilities'' total_liabilities records
     @ float_column ''total_equity'' total_equity records
     @ float_column ''total_assets'' total_assets records"

text \<open>\<^verbatim>\<open>frame[key]\<close> raises KeyError for a column that does not exist.\<close>

definition getitem :: "frame \<Rightarrow> string \<Rightarrow> column outcome" where
  "getitem frame key =
     (case map_of frame key of None \<Rightarrow> Raised (KeyError key) | Some c \<Rightarrow> Returned c)"

text \<open>
  \<^verbatim>\<open>frame[key] = column\<close> replaces the column where it stands, or appends a new one
  after the last.
\<close>

definition setitem :: "frame \<Rightarrow> string \<Rightarrow> column \<Rightarrow> frame" where
  "setitem frame key c = AList.update key c frame"

text \<open>
  \<^verbatim>\<open>frame[[k1, ..., kn]]\<close> selects columns in the order asked for and raises KeyError
  when one is missing (pandas names every missing label; the model names the first).
\<close>

fun getitems :: "frame \<Rightarrow> string list \<Rightarrow> frame outcome" where
  "getitems frame [] = Returned []"
| "getitems frame (k # ks) =
     (case map_of frame k of
        None \<Rightarrow> Raised (KeyError k)
      | Some c \<Rightarrow> and_then (getitems frame ks) (\<lambda>rest. Returned ((k, c) # rest)))"

text \<open>
  Column by column division. Both operands are columns of one frame, so they have the
  same length. Only numeric columns are divided by the program; pandas refuses text
  and timestamps with a TypeError.
\<close>

definition truediv :: "column \<Rightarrow> column \<Rightarrow> column outcome" where
  "truediv a b =
     (case (a, b) of
        (Floats xs, Floats ys) \<Rightarrow> Returned (Floats (map2 float_truediv xs ys))
      | _ \<Rightarrow> Raised (TypeError ''unsupported operand type(s) for /''))"

subsection \<open>Dates\<close>

text \<open>
  \<^verbatim>\<open>pd.to_datetime\<close> reads each text of the column as a date; how it reads one text
  is pandas' business and a parameter \<open>parse\<close> here (\<open>None\<close> where pandas rejects the
  text, which raises a ValueError for the whole column). A missing value becomes NaT.
  The program passes the \<^verbatim>\<open>date\<close> column of a frame built by \<open>DataFrame\<close>, which holds
  text; pandas would read numbers as offsets from the epoch, which the model does not
  follow: it reports a TypeError for a numeric column.
\<close>

fun to_datetime_cells ::
  "(string \<Rightarrow> timestamp option) \<Rightarrow> string option list \<Rightarrow> timestamp option list outcome" where
  "to_datetime_cells parse [] = Returned []"
| "to_datetime_cells parse (None # xs) =
     and_then (to_datetime_cells parse xs) (\<lambda>ts. Returned (None # ts))"
| "to_datetime_cells parse (Some x # xs) =
     (case parse x of
        None \<Rightarrow> Raised (ValueError x)
      | Some t \<Rightarrow> and_then (to_datetime_cells parse xs) (\<lambda>ts. Returned (Some t # ts)))"

definition to_datetime :: "(string \<Rightarrow> timestamp option) \<Rightarrow> column \<Rightarrow> column outcome" where
  "to_datetime parse c =
     (case c of
        Strings xs \<Rightarrow> and_then (to_datetime_cells parse xs) (\<lambda>ts. Returned (Times ts))
      | Times ts \<Rightarrow> Returned (Times ts)
      | Floats xs \<Rightarrow> Raised (TypeError ''to_datetime of a numeric column''))"

definition digit :: "nat \<Rightarrow> char" where
  "digit n = ''0123456789'' ! (n mod 10)"

definition pad2 :: "nat \<Rightarrow> string" where
  "pad2 n = [digit (n div 10), digit n]"

definition pad4 :: "nat \<Rightarrow> string" where
  "pad4 n = [digit (n div 1000), digit (n div 100), digit (n div 10), digit n]"

text \<open>
  \<^verbatim>\<open>strftime\<close> with the directives \<^verbatim>\<open>%m\<close>, \<^verbatim>\<open>%Y\<close> and \<^verbatim>\<open>%d\<close> (a pandas timestamp has a
  year of four digits); every other character is copied.
\<close>

fun strftime :: "string \<Rightarrow> timestamp \<Rightarrow> string" where
  "strftime [] t = []"
| "strftime [c] t = [c]"
| "strftime (c # d # fmt) t =
     (if c = CHR ''%'' \<and> d = CHR ''m'' then pad2 (month t) @ strftime fmt t
      else if c = CHR ''%'' \<and> d = CHR ''Y'' then pad4 (year t) @ strftime fmt t
      else if c = CHR ''%'' \<and> d = CHR ''d'' then pad2 (day t) @ strftime fmt t
      else c # strftime (d # fmt) t)"

text \<open>
  \<^verbatim>\<open>column.dt.strftime(fmt)\<close>: the \<^verbatim>\<open>.dt\<close> accessor exists on a column of timestamps only
  (AttributeError otherwise); NaT stays a missing value.
\<close>

definition dt_strftime :: "column \<Rightarrow> string \<Rightarrow> column outcome" where
  "dt_strftime c fmt =
     (case c of
        Times ts \<Rightarrow> Returned (Strings (map (map_option (strftime fmt)) ts))
      | _ \<Rightarrow> Raised (AttributeError ''Can only use .dt accessor with datetimelike values''))"

section \<open>Prompt templates\<close>

text \<open>
  \<^verbatim>\<open>PromptTemplate.from_template(t)\<close> parses an f-string template: \<^verbatim>\<open>{{\<close> and \<^verbatim>\<open>}}\<close>
  stand for a brace, \<^verbatim>\<open>{name}\<close> is a replacement field, a brace on its own is a
  ValueError. Field names are taken as plain names, as in the program's templates.
\<close>

datatype piece = Literal char | Field string

function parse_format :: "string \<Rightarrow> piece list outcome" where
  "parse_format [] = Returned []"
| "parse_format (c # cs) =
     (if c = CHR ''{'' then
        (if cs \<noteq> [] \<and> hd cs = CHR ''{''
         then and_then (parse_format (tl cs)) (\<lambda>ps. Returned (Literal c # ps))
         else if CHR ''}'' \<notin> set cs
         then Raised (ValueError ''expected closing brace before end of string'')
         else and_then (parse_format (tl (dropWhile (\<lambda>x. x \<noteq> CHR ''}'') cs)))
                (\<lambda>ps. Returned (Field (takeWhile (\<lambda>x. x \<noteq> CHR ''}'') cs) # ps)))
      else if c = CHR ''}'' then
        (if cs \<noteq> [] \<and> hd cs = CHR ''}''
         then and_then (parse_format (tl cs)) (\<lambda>ps. Returned (Literal c # ps))
         else Raised (ValueError ''Single closing brace encountered in format string''))
      else and_then (parse_format cs) (\<lambda>ps. Returned (Literal c # ps)))"
  by pat_completeness auto
termination
proof (relation "measure length")
  fix c :: char and cs :: string
  have "length (dropWhile (\<lambda>x. x \<noteq> CHR ''}'') cs) \<le> length cs"
    by (rule length_dropWhile_le)
  then show "(tl (dropWhile (\<lambda>x. x \<noteq> CHR ''}'') cs), c # cs) \<in> measure length"
    by simp
qed auto

text \<open>
  \<^verbatim>\<open>.format(data=text)\<close>: the only variable supplied is \<^verbatim>\<open>data\<close>; any other field is a
  KeyError.
\<close>

fun format_pieces :: "piece list \<Rightarrow> string \<Rightarrow> string outcome" where
  "format_pieces [] data = Returned []"
| "format_pieces (Literal c # ps) data =
     and_then (format_pieces ps data) (\<lambda>rest. Returned (c # rest))"
| "format_pieces (Field name # ps) data =
     (if name = ''data''
      then and_then (format_pieces ps data) (\<lambda>rest. Returned (data @ rest))
      else Raised (KeyError name))"

definition format_template :: "string \<Rightarrow> string \<Rightarrow> string outcome" where
  "format_template prompt_template data =
     and_then (parse_format prompt_template) (\<lambda>ps. format_pieces ps data)"

section \<open>The collaborators\<close>

text \<open>
  What the script calls and does not define is a field of \<open>world\<close>: the HTTP data
  source, pandas' date reader and its two text renderings of a frame
  (\<^verbatim>\<open>to_string(index=False)\<close> and \<^verbatim>\<open>str\<close>), the generative service, the Python
  interpreter that runs a program text, the names an object provides when it stands as
  \<^verbatim>\<open>__builtins__\<close>, and Streamlit's check of a chart object. The service is not
  deterministic (temperature 0.7): its answer may depend on the prompts sent before.
\<close>

datatype pyobj = Builtin string | Module string | Object string

record world =
  sectors_api :: "string \<Rightarrow> (string \<times> string) list \<Rightarrow> raw_record list outcome"
  parse_datetime :: "string \<Rightarrow> timestamp option"
  to_string :: "frame \<Rightarrow> string"
  frame_str :: "frame \<Rightarrow> string"
  groq :: "string list \<Rightarrow> string \<Rightarrow> string outcome"
  run_program ::
    "string \<Rightarrow> (string \<Rightarrow> pyobj option) \<Rightarrow> (string \<Rightarrow> pyobj option) \<Rightarrow> (string \<Rightarrow> pyobj option) outcome"
  members :: "pyobj \<Rightarrow> string \<Rightarrow> pyobj option"
  plotly_chart_check :: "pyobj \<Rightarrow> unit outcome"

text \<open>
  The session: what Streamlit has rendered so far, in order, and the prompts sent to
  the generative service so far. The pictograph that starts each subheader in the
  source is left out of the title; containers, columns and the spinner only place
  what is rendered inside them and are left out too.
\<close>

datatype element = Subheader string | Markdown string | PlotlyChart pyobj | Success string

record session =
  page :: "element list"
  sent :: "string list"

definition render :: "element \<Rightarrow> session \<Rightarrow> session" where
  "render e s = s\<lparr>page := page s @ [e]\<rparr>"

definition then_do ::
  "'a outcome \<times> session \<Rightarrow> ('a \<Rightarrow> session \<Rightarrow> 'b outcome \<times> session) \<Rightarrow> 'b outcome \<times> session" where
  "then_do m f =
     (case m of
        (Returned x, s) \<Rightarrow> f x s
      | (Raised e, s) \<Rightarrow> (Raised e, s)
      | (Hangs, s) \<Rightarrow> (Hangs, s))"

section \<open>The program\<close>

subsection \<open>Utilities (lines 28 to 39)\<close>

definition BASE_URL :: string where
  "BASE_URL = ''https://api.sectors.app/v1''"

text \<open>
  \<^verbatim>\<open>fetch_data\<close>: a failed request, or a status that \<^verbatim>\<open>raise_for_status\<close> rejects, is
  a raised outcome of the data source.
\<close>

definition fetch_data ::
  "world \<Rightarrow> string \<Rightarrow> (string \<times> string) list \<Rightarrow> raw_record list outcome" where
  "fetch_data w endpoint params = sectors_api w (BASE_URL @ ''/'' @ endpoint) params"

text \<open>\<^verbatim>\<open>llm.invoke(prompt).content\<close>: one call of the service, recorded in the session.\<close>

definition llm_invoke :: "world \<Rightarrow> string \<Rightarrow> session \<Rightarrow> string outcome \<times> session" where
  "llm_invoke w prompt s = (groq w (sent s) prompt, s\<lparr>sent := sent s @ [prompt]\<rparr>)"

text \<open>
  Line 35 of \<^verbatim>\<open>run_llm\<close>, the composition of the prompt:
  \<^verbatim>\<open>PromptTemplate.from_template(prompt_template).format(data=data.to_string(index=False))\<close>.
\<close>

definition compose_prompt :: "world \<Rightarrow> string \<Rightarrow> frame \<Rightarrow> string outcome" where
  "compose_prompt w prompt_template data = format_template prompt_template (to_string w data)"

definition run_llm :: "world \<Rightarrow> string \<Rightarrow> frame \<Rightarrow> session \<Rightarrow> string outcome \<times> session" where
  "run_llm w prompt_template data s =
     (case compose_prompt w prompt_template data of
        Returned prompt \<Rightarrow> llm_invoke w prompt s
      | Raised e \<Rightarrow> (Raised e, s)
      | Hangs \<Rightarrow> (Hangs, s))"

subsection \<open>Metric derivation (lines 62 to 68 of \<^verbatim>\<open>financial_summary\<close>)\<close>

text \<open>
  The five assignments to columns of \<^verbatim>\<open>financials\<close>, in the order of the source. In
  a division the left column is looked up before the right one.
\<close>

definition financial_summary_columns :: "world \<Rightarrow> frame \<Rightarrow> frame outcome" where
  "financial_summary_columns w financials =
     and_then (getitem financials ''date'') (\<lambda>d.
     and_then (to_datetime (parse_datetime w) d) (\<lambda>d.
     let financials = setitem financials ''date'' d in
     and_then (getitem financials ''date'') (\<lambda>d.
     and_then (dt_strftime d ''%m-%Y'') (\<lambda>d.
     let financials = setitem financials ''date'' d in
     and_then (getitem financials ''total_liabilities'') (\<lambda>a.
     and_then (getitem financials ''total_equity'') (\<lambda>b.
     and_then (truediv a b) (\<lambda>q.
     let financials = setitem financials ''DER'' q in
     and_then (getitem financials ''revenue'') (\<lambda>a.
     and_then (getitem financials ''total_assets'') (\<lambda>b.
     and_then (truediv a b) (\<lambda>q.
     Returned (setitem financials ''asset_turnover'' q)))))))))))"

definition financial_summary_frame :: "world \<Rightarrow> string \<Rightarrow> frame outcome" where
  "financial_summary_frame w symbol =
     and_then
       (fetch_data w (''financials/quarterly/'' @ symbol @ ''/'')
          [(''n_quarters'', ''4''), (''report_date'', ''2025-06-30'')])
       (\<lambda>records. financial_summary_columns w (DataFrame records))"

subsection \<open>The prompt texts\<close>

definition summary_prompt :: string where
  \<open>summary_prompt =
''
    Anda berperan sebagai data analyst expert dalam bidang investasi keuangan dan memiliki keahlian dalam menganalisis laporan keuangan perusahaan publik.
    Anda juga memiliki pengalaman sebagai konsultan investasi untuk klien institusional.
    Anda memiliki kemampuan untuk menyajikan informasi keuangan yang kompleks dengan cara yang mudah dipahami oleh investor.
    Anda diminta untuk melakukan analisis mendalam terhadap laporan keuangan kuartalan perusahaan publik dan menyusun ringkasan eksekutif yang jelas dan ringkas
    berdasarkan data keuangan kuartalan berikut (dalam miliar Rupiah):

    {data}
    Buatlah summary mengenai laporan keuangan kuartalan tersebut dengan memperhatikan hal-hal berikut:
1. Soroti metrik keuangan utama
2. Buat analisa menggunakan rasio: 
DER (Debt to Equity Ratio) yaitu kolom total_liabilities dibagi dengan kolom total_equity
Asset Turnover Ratio yaitu kolom revenue dibagi dengan kolom  total_assets
Dari rasio rasio tersebut jelaskan apa maksudnya bagi perusahaan.
3. Identifikasi tren atau perubahan signifikan dibandingkan kuartal sebelumnya.
4. Jelaskan setiap indikator keuangan yang Anda soroti dan mengapa itu penting bagi investor.
5. Berikan wawasan tentang faktor-faktor yang mungkin mempengaruhi kinerja keuangan perusahaan.
6. Sajikan informasi ini dalam format yang mudah dipahami oleh investor, seperti poin-poin ringkas atau tabel.
7. Ringkasan harus ditulis dalam bahasa Indonesia.
8. Gunakan istilah yang mudah dimengerti oleh investor awam.
9. Berikan rekomendasi investasi berdasarkan analisis Anda.
10. Buat kesimpulan yang menyoroti kekuatan dan potensi risiko investasi di perusahaan ini.

    ''\<close>

definition trend_prompt :: string where
  \<open>trend_prompt =
''
    Anda beerperan sebagai seorang data analyst dari mckinsey yang memiliki keahlian dalam menganalisis laporan keuangan perusahaan publik.
    Anda juga memiliki pengalaman sebagai konsultan investasi untuk klien institusional.
    Berdasarkan data kuartalan berikut:
    {data}
    Berikan insight mendalam tentang kondisi keuangan perusahaan berdasarkan visualisasi tersebut kemudian berikan rekomendasi apa yang harus diperbaiki atau harus ditingkatkan oleh perusahaan
    dan gunakan bahasa yang bisa di mengerti dan di eksekusi oleh manajemen perusahaan.
    ''\<close>

definition risk_prompt :: string where
  \<open>risk_prompt =
''
    Anda adalah berperan sebagai seorang  analis risiko keuangan dan audit internal yang skeptis.
    Tugas anda andalah mencari celah potensi kerugian perusahaan atau indikator red flag yang bisa menyebabkan perusahaan mengalami penurunan / kerugian di masa mendatang.
    Periksa data keuangan berikut dengan teliti:
    {data}
    Indentifikasi 5 potensi risiko atau "red flags" yang perlu diwaspadai dari data tersebut. 
    Jelaskan secara detail mengapa hal tersebut menjadi risiko bagi perusahaan dan langsung kepada penjelasan poin poinnya.
    ''\<close>

definition visual_prompt_head :: string where
  \<open>visual_prompt_head =
''
Buatkan kode visualisasi plotly python untuk menampilkan insight keuangan berikut:
- Tampilkan dalam 1 kanvas (menggunakan subplot) dengan 3 bagian:
    1. Stacked bar chart proporsi total_assets, total_liabilities, total_equity per kuartal (row 1).
    2. Line chart tren DER & asset_turnover (row 2).
    3. Dual axis chart: revenue (bar, y1) & DER (line, y2) (row 3).
- Gunakan struktur subplot, parameter, dan urutan kode **persis** seperti contoh berikut:

# Pastikan kolom tanggal sudah dalam format datetime
financials['date'] = pd.to_datetime(financials['date'])

# Membuat subplot 3 baris 1 kolom, dengan yaxis kedua di subplot ke-3
fig = make_subplots(
    rows=3, cols=1,
    shared_xaxes=True,
    vertical_spacing=0.08,
    subplot_titles=[
        "Proporsi Total Assets, Liabilities, dan Equity per Kuartal",
        "Tren DER & Asset Turnover",
        "Revenue vs DER"
    ],
    specs=[[{"type": "bar"}],
           [{"type": "scatter"}],
           [{"secondary_y": True}]]
)

# 1. Stacked Bar Chart
fig.add_trace(go.Bar(
    x=financials['date'],
    y=financials['total_liabilities'],
    name='Total Liabilities'
), row=1, col=1)
fig.add_trace(go.Bar(
    x=financials['date'],
    y=financials['total_equity'],
    name='Total Equity'
), row=1, col=1)
fig.add_trace(go.Bar(
    x=financials['date'],
    y=financials['total_assets'],
    name='Total Assets'
), row=1, col=1)

# 2. Line Chart DER & Asset Turnover
fig.add_trace(go.Scatter(
    x=financials['date'],
    y=financials['DER'],
    mode='lines+markers',
    name='DER'
), row=2, col=1)
fig.add_trace(go.Scatter(
    x=financials['date'],
    y=financials['asset_turnover'],
    mode='lines+markers',
    name='Asset Turnover'
), row=2, col=1)

# 3. Dual Axis: Revenue (bar) & DER (line)
fig.add_trace(go.Bar(
    x=financials['date'],
    y=financials['revenue'],
    name='Revenue',
    marker_color='rgba(55, 83, 109, 0.7)'
), row=3, col=1, secondary_y=False)
fig.add_trace(go.Scatter(
    x=financials['date'],
    y=financials['DER'],
    name='DER',
    mode='lines+markers',
    marker_color='crimson'
), row=3, col=1, secondary_y=True)

# Layout dan axis
fig.update_layout(
    barmode='stack',
    height=1200,
    title_text="Insight Visualisasi Keuangan: Assets, Liabilities, Equity, Revenue, DER, Asset Turnover",
    legend_title='Metrik',
    template='plotly_white'
)
fig.update_xaxes(title_text="Tanggal Laporan", row=3, col=1)
fig.update_yaxes(title_text="Nilai (Miliar Rupiah)", row=1, col=1)
fig.update_yaxes(title_text="Rasio", row=2, col=1)
fig.update_yaxes(title_text="Revenue (Miliar Rupiah)", row=3, col=1, secondary_y=False)
fig.update_yaxes(title_text="DER", row=3, col=1, secondary_y=True)
fig.show()

Gunakan data berikut:
''\<close>

definition visual_prompt_tail :: string where
  \<open>visual_prompt_tail =
''

Tulis HANYA kode Python yang bisa langsung dieksekusi. Jangan sertakan penjelasan apapun.
    ''\<close>

text \<open>
  The prompt of \<^verbatim>\<open>revenue_trend\<close> is a Python f-string: the text above with the doubled
  braces already single, \<^verbatim>\<open>str(data_sample)\<close>, and the closing lines.
\<close>

definition revenue_trend_prompt :: "string \<Rightarrow> string" where
  "revenue_trend_prompt data_sample = visual_prompt_head @ data_sample @ visual_prompt_tail"

subsection \<open>Execution of the generated program\<close>

text \<open>
  \<^verbatim>\<open>exec(code, globals, locals)\<close>. A dictionary from names to objects is a map, and
  \<open>empty_dict\<close> is Python's \<^verbatim>\<open>{}\<close>. Python puts a reference to the module of built-ins
  under the key \<^verbatim>\<open>__builtins__\<close> of \<open>globals\<close> when the key is absent. A name of the
  program is looked up in \<open>locals\<close>, then in \<open>globals\<close>, then among the names of the
  object under \<^verbatim>\<open>__builtins__\<close>. Assignments at the top level of the program go to
  \<open>locals\<close>. What the program does with the names it can reach is the interpreter's
  business (\<open>run_program\<close>); its effects other than the final \<open>locals\<close> are not
  modelled.
\<close>

definition empty_dict :: "string \<Rightarrow> pyobj option" where
  "empty_dict = (\<lambda>name. None)"

definition builtins_module :: pyobj where
  "builtins_module = Module ''builtins''"

definition with_builtins :: "(string \<Rightarrow> pyobj option) \<Rightarrow> (string \<Rightarrow> pyobj option)" where
  "with_builtins globals =
     (case globals ''__builtins__'' of
        None \<Rightarrow> globals(''__builtins__'' \<mapsto> builtins_module)
      | Some b \<Rightarrow> globals)"

definition exec_scope ::
  "world \<Rightarrow> (string \<Rightarrow> pyobj option) \<Rightarrow> (string \<Rightarrow> pyobj option) \<Rightarrow> string \<Rightarrow> pyobj option" where
  "exec_scope w globals locals name =
     (case locals name of
        Some v \<Rightarrow> Some v
      | None \<Rightarrow>
          (case with_builtins globals name of
             Some v \<Rightarrow> Some v
           | None \<Rightarrow>
               (case with_builtins globals ''__builtins__'' of
                  Some b \<Rightarrow> members w b name
                | None \<Rightarrow> None)))"

definition py_exec ::
  "world \<Rightarrow> string \<Rightarrow> (string \<Rightarrow> pyobj option) \<Rightarrow> (string \<Rightarrow> pyobj option)
     \<Rightarrow> (string \<Rightarrow> pyobj option) outcome" where
  "py_exec w code globals locals = run_program w code (exec_scope w globals locals) locals"

subsection \<open>The panels\<close>

definition financial_summary :: "world \<Rightarrow> string \<Rightarrow> session \<Rightarrow> frame outcome \<times> session" where
  "financial_summary w symbol s =
     (case financial_summary_frame w symbol of
        Returned financials \<Rightarrow>
          then_do (run_llm w summary_prompt financials s) (\<lambda>summary s.
            (Returned financials,
             render (Markdown summary) (render (Subheader ''Ringkasan Keuangan'') s)))
      | Raised e \<Rightarrow> (Raised e, s)
      | Hangs \<Rightarrow> (Hangs, s))"

text \<open>
  \<^verbatim>\<open>revenue_trend\<close>: the executor of line 202 passes two empty dictionaries,
  \<^verbatim>\<open>exec(code, {}, exec_locals)\<close>, and line 203 reads \<^verbatim>\<open>exec_locals["fig"]\<close>.
\<close>

definition revenue_trend ::
  "world \<Rightarrow> string \<Rightarrow> frame \<Rightarrow> session \<Rightarrow> unit outcome \<times> session" where
  "revenue_trend w symbol financials s =
     (case getitems financials
             [''date'', ''revenue'', ''total_liabilities'', ''total_equity'', ''total_assets'',
              ''DER'', ''asset_turnover''] of
        Returned data_sample \<Rightarrow>
          then_do (llm_invoke w (revenue_trend_prompt (frame_str w data_sample)) s) (\<lambda>content s.
            let code = clean_python_code content;
                s = render (Subheader ''Visualisasi Tren Keuangan'') s;
                exec_locals = empty_dict
            in (case py_exec w code empty_dict exec_locals of
                  Returned exec_locals \<Rightarrow>
                    (case exec_locals ''fig'' of
                       None \<Rightarrow> (Raised (KeyError ''fig''), s)
                     | Some fig \<Rightarrow>
                         (case plotly_chart_check w fig of
                            Returned u \<Rightarrow> (Returned (), render (PlotlyChart fig) s)
                          | Raised e \<Rightarrow> (Raised e, s)
                          | Hangs \<Rightarrow> (Hangs, s)))
                | Raised e \<Rightarrow> (Raised e, s)
                | Hangs \<Rightarrow> (Hangs, s)))
      | Raised e \<Rightarrow> (Raised e, s)
      | Hangs \<Rightarrow> (Hangs, s))"

definition trend_analysis :: "world \<Rightarrow> frame \<Rightarrow> session \<Rightarrow> unit outcome \<times> session" where
  "trend_analysis w financials s =
     then_do (run_llm w trend_prompt financials s) (\<lambda>analysis s.
       (Returned (),
        render (Markdown analysis) (render (Subheader ''Interpretasi Tren Keuangan'') s)))"

definition risk_analysis :: "world \<Rightarrow> frame \<Rightarrow> session \<Rightarrow> unit outcome \<times> session" where
  "risk_analysis w financials s =
     then_do (run_llm w risk_prompt financials s) (\<lambda>risks s.
       (Returned (),
        render (Markdown risks) (render (Subheader ''Potensi Risiko Keuangan'') s)))"

subsection \<open>\<^verbatim>\<open>main\<close> (lines 267 to 278)\<close>

text \<open>
  The page header and the sidebar (lines 235 to 265) yield the selected symbol and
  whether the button was pressed; the model takes both as arguments. The four panels
  run one after the other, and no call is wrapped in an exception handler.
\<close>

definition main :: "world \<Rightarrow> string \<Rightarrow> bool \<Rightarrow> session \<Rightarrow> unit outcome \<times> session" where
  "main w symbol pressed s =
     (if pressed then
        then_do (financial_summary w symbol s) (\<lambda>financials s.
        then_do (revenue_trend w symbol financials (render (Markdown ''---'') s)) (\<lambda>u s.
        then_do (trend_analysis w financials (render (Markdown ''---'') s)) (\<lambda>u s.
        then_do (risk_analysis w financials s) (\<lambda>u s.
        (Returned (), render (Success ''Analisis selesai!'') s)))))
      else (Returned (), s))"

section \<open>A sample world\<close>

text \<open>
  A concrete world for the examples: a data source that answers every request with the
  given records, a reader of ISO calendar dates (\<^verbatim>\<open>YYYY-MM-DD\<close>, the form of the report
  date in line 64), a rendering that lists the column names, the given service, an
  interpreter for programs of the single form \<^verbatim>\<open>target = name\<close> or \<^verbatim>\<open>target = {}\<close>, a
  chart check that accepts plain objects only, and a module of built-ins that holds
  some of the functions every Python 3 has. Two services: one answers every prompt
  with the same text, the other does so but for its call number \<open>k\<close>, which fails.
\<close>

definition is_digit :: "char \<Rightarrow> bool" where
  "is_digit c = (48 \<le> (of_char c :: nat) \<and> (of_char c :: nat) \<le> 57)"

definition number :: "string \<Rightarrow> nat" where
  "number ds = foldl (\<lambda>n c. 10 * n + (of_char c - 48)) 0 ds"

definition iso_date :: "string \<Rightarrow> timestamp option" where
  "iso_date s =
     (if length s = 10 \<and> s ! 4 = CHR ''-'' \<and> s ! 7 = CHR ''-''
         \<and> list_all is_digit (take 4 s @ take 2 (drop 5 s) @ drop 8 s)
         \<and> 1 \<le> number (take 2 (drop 5 s)) \<and> number (take 2 (drop 5 s)) \<le> 12
         \<and> 1 \<le> number (drop 8 s) \<and> number (drop 8 s) \<le> 31
      then Some \<lparr>year = number (take 4 s), month = number (take 2 (drop 5 s)),
                 day = number (drop 8 s)\<rparr>
      else None)"

definition column_names :: "frame \<Rightarrow> string" where
  "column_names f = concat (map (\<lambda>(name, c). name @ '' '') f)"

definition some_builtins :: "string list" where
  "some_builtins =
     [''open'', ''__import__'', ''eval'', ''exec'', ''compile'', ''getattr'', ''print'', ''len'']"

definition sample_members :: "pyobj \<Rightarrow> string \<Rightarrow> pyobj option" where
  "sample_members obj name =
     (if obj = builtins_module \<and> name \<in> set some_builtins then Some (Builtin name) else None)"

definition assignment_program ::
  "string \<Rightarrow> (string \<Rightarrow> pyobj option) \<Rightarrow> (string \<Rightarrow> pyobj option) \<Rightarrow> (string \<Rightarrow> pyobj option) outcome" where
  "assignment_program code scope locals =
     (let target = takeWhile (\<lambda>c. c \<noteq> CHR '' '') code;
          rest = dropWhile (\<lambda>c. c \<noteq> CHR '' '') code;
          source = drop 3 rest
      in if take 3 rest = '' = '' then
           (if source = ''{}'' then Returned (locals(target \<mapsto> Object ''{}''))
            else (case scope source of
                    Some v \<Rightarrow> Returned (locals(target \<mapsto> v))
                  | None \<Rightarrow> Raised (ProgramError (''NameError: '' @ source))))
         else Raised (ProgramError ''SyntaxError''))"

definition accepts_objects :: "pyobj \<Rightarrow> unit outcome" where
  "accepts_objects obj =
     (case obj of
        Object d \<Rightarrow> Returned ()
      | Builtin n \<Rightarrow> Raised (ChartError n)
      | Module n \<Rightarrow> Raised (ChartError n))"

definition answers :: "string \<Rightarrow> string list \<Rightarrow> string \<Rightarrow> string outcome" where
  "answers content history prompt = Returned content"

definition fails_at :: "nat \<Rightarrow> string \<Rightarrow> string list \<Rightarrow> string \<Rightarrow> string outcome" where
  "fails_at k content history prompt =
     (if length history = k then Raised (ServiceError ''503 Service Unavailable'')
      else Returned content)"

definition sample_world ::
  "raw_record list \<Rightarrow> (string list \<Rightarrow> string \<Rightarrow> string outcome) \<Rightarrow> world" where
  "sample_world records service =
     \<lparr>sectors_api = (\<lambda>url params. Returned records),
      parse_datetime = iso_date,
      to_string = column_names,
      frame_str = column_names,
      groq = service,
      run_program = assignment_program,
      members = sample_members,
      plotly_chart_check = accepts_objects\<rparr>"

definition fenced_fig :: string where
  "fenced_fig = ''```python
fig = {}
```''"

definition quarter ::
  "string \<Rightarrow> real \<Rightarrow> real \<Rightarrow> real \<Rightarrow> real \<Rightarrow> raw_record" where
  "quarter d sales liabilities equity assets =
     \<lparr>date = Some d, revenue = Some (Fin sales), total_liabilities = Some (Fin liabilities),
      total_equity = Some (Fin equity), total_assets = Some (Fin assets)\<rparr>"

definition two_quarters :: "raw_record list" where
  "two_quarters =
     [quarter ''2025-06-30'' 500 100 50 1000, quarter ''2025-03-31'' 450 100 50 900]"

text \<open>The series derived from \<open>two_quarters\<close>, and a session in which nothing has happened.\<close>

definition two_quarters_frame :: frame where
  "two_quarters_frame =
     [(''date'', Strings [Some ''06-2025'', Some ''03-2025'']),
      (''revenue'', Floats [Fin 500, Fin 450]),
      (''total_liabilities'', Floats [Fin 100, Fin 100]),
      (''total_equity'', Floats [Fin 50, Fin 50]),
      (''total_assets'', Floats [Fin 1000, Fin 900]),
      (''DER'', Floats [Fin 2, Fin 2]),
      (''asset_turnover'', Floats [Fin (1 / 2), Fin (1 / 2)])]"

definition fresh :: session where
  "fresh = \<lparr>page = [], sent = []\<rparr>"

text \<open>The key of a month-year text \<^verbatim>\<open>MM-YYYY\<close> in chronological order.\<close>

definition month_year_key :: "string option \<Rightarrow> nat" where
  "month_year_key d = (case d of None \<Rightarrow> 0 | Some s \<Rightarrow> 12 * number (drop 3 s) + number (take 2 s))"

section \<open>Lemmas\<close>

subsection \<open>Outcomes\<close>

lemma and_then_simps [simp]:
  "and_then (Returned x) f = f x"
  "and_then (Raised e) f = Raised e"
  "and_then Hangs f = Hangs"
  by (simp_all add: and_then_def)

lemma then_do_simps [simp]:
  "then_do (Returned x, s) g = g x s"
  "then_do (Raised e, s) g = (Raised e, s)"
  "then_do (Hangs, s) g = (Hangs, s)"
  by (simp_all add: then_do_def)

subsection \<open>The sanitizer's string operations\<close>

lemma str_replace_Nil: "old \<noteq> [] \<Longrightarrow> str_replace old new [] = []"
  by (simp add: str_replace.simps)

lemma str_replace_prefix:
  "old \<noteq> [] \<Longrightarrow> prefix old s \<Longrightarrow>
   str_replace old new s = new @ str_replace old new (drop (length old) s)"
  by (subst str_replace.simps) auto

lemma str_replace_Cons:
  "old \<noteq> [] \<Longrightarrow> \<not> prefix old (c # cs) \<Longrightarrow>
   str_replace old new (c # cs) = c # str_replace old new cs"
  by (subst str_replace.simps) simp

lemma str_replace_absent:
  "old \<noteq> [] \<Longrightarrow> \<not> sublist old s \<Longrightarrow> str_replace old new s = s"
proof (induction s)
  case Nil
  then show ?case by (simp add: str_replace_Nil)
next
  case (Cons c cs)
  then show ?case by (simp add: str_replace_Cons sublist_Cons_right)
qed

lemma length_str_replace_le:
  "old \<noteq> [] \<Longrightarrow> length (str_replace old [] s) \<le> length s"
proof (induction s rule: length_induct)
  case (1 s)
  show ?case
  proof (cases s)
    case Nil
    with 1 show ?thesis by (simp add: str_replace_Nil)
  next
    case (Cons c cs)
    show ?thesis
    proof (cases "prefix old s")
      case True
      have "length (drop (length old) s) < length s"
        using Cons 1(2) by simp
      then have "length (str_replace old [] (drop (length old) s)) \<le> length (drop (length old) s)"
        using 1 by blast
      then show ?thesis using True 1(2) by (simp add: str_replace_prefix)
    next
      case False
      then show ?thesis using 1 Cons by (simp add: str_replace_Cons)
    qed
  qed
qed

lemma length_str_replace_less:
  "old \<noteq> [] \<Longrightarrow> sublist old s \<Longrightarrow> length (str_replace old [] s) < length s"
proof (induction s)
  case Nil
  then show ?case by simp
next
  case (Cons c cs)
  show ?case
  proof (cases "prefix old (c # cs)")
    case True
    have "length (str_replace old [] (drop (length old) (c # cs))) \<le> length (drop (length old) (c # cs))"
      using Cons.prems(1) by (rule length_str_replace_le)
    moreover have "length (drop (length old) (c # cs)) < length (c # cs)"
      using Cons.prems(1) by (cases old) simp_all
    ultimately have "length (str_replace old [] (drop (length old) (c # cs))) < length (c # cs)"
      by (rule le_less_trans)
    then show ?thesis using True Cons.prems(1) by (simp add: str_replace_prefix)
  next
    case False
    then have "sublist old cs" using Cons.prems(2) by (simp add: sublist_Cons_right)
    then show ?thesis using False Cons by (simp add: str_replace_Cons)
  qed
qed

lemma python_no_overlap:
  "\<not> prefix ''python'' (c # a) \<Longrightarrow> \<not> prefix ''python'' (c # a @ ''python'' @ b)"
  by (cases a; cases "tl a"; cases "tl (tl a)"; cases "tl (tl (tl a))";
      cases "tl (tl (tl (tl a)))"; auto)

lemma str_replace_python_append:
  "str_replace ''python'' '''' (a @ ''python'' @ b) =
   str_replace ''python'' '''' a @ str_replace ''python'' '''' b"
proof (induction a rule: length_induct)
  case (1 a)
  show ?case
  proof (cases a)
    case Nil
    then show ?thesis by (simp add: str_replace_prefix str_replace_Nil)
  next
    case (Cons c cs)
    show ?thesis
    proof (cases "prefix ''python'' a")
      case True
      then obtain r where r: "a = ''python'' @ r" by (auto simp: prefix_def)
      then have "length r < length a" by simp
      then have ih: "str_replace ''python'' '''' (r @ ''python'' @ b) =
                     str_replace ''python'' '''' r @ str_replace ''python'' '''' b"
        using 1 by blast
      have "str_replace ''python'' '''' (a @ ''python'' @ b) = str_replace ''python'' '''' (r @ ''python'' @ b)"
        unfolding r by (subst str_replace_prefix) simp_all
      moreover have "str_replace ''python'' '''' a = str_replace ''python'' '''' r"
        unfolding r by (subst str_replace_prefix) simp_all
      ultimately show ?thesis using ih by simp
    next
      case False
      then have np: "\<not> prefix ''python'' (c # cs @ ''python'' @ b)"
        unfolding Cons by (rule python_no_overlap)
      have "length cs < length a" using Cons by simp
      then have ih: "str_replace ''python'' '''' (cs @ ''python'' @ b) =
                     str_replace ''python'' '''' cs @ str_replace ''python'' '''' b"
        using 1 by blast
      have "str_replace ''python'' '''' (a @ ''python'' @ b)
            = c # str_replace ''python'' '''' (cs @ ''python'' @ b)"
        unfolding Cons using np by (simp add: str_replace_Cons)
      moreover have "str_replace ''python'' '''' a = c # str_replace ''python'' '''' cs"
        using False unfolding Cons by (simp add: str_replace_Cons)
      ultimately show ?thesis using ih by simp
    qed
  qed
qed

lemma dropWhile_length_eq: "length (dropWhile P s) = length s \<Longrightarrow> dropWhile P s = s"
proof -
  assume a: "length (dropWhile P s) = length s"
  have "length (takeWhile P s) + length (dropWhile P s) = length s"
    by (metis length_append takeWhile_dropWhile_id)
  with a have "takeWhile P s = []" by simp
  then show ?thesis by (metis append_Nil takeWhile_dropWhile_id)
qed

lemma length_str_lstrip_le: "length (str_lstrip chars s) \<le> length s"
  by (simp add: str_lstrip_def length_dropWhile_le)

lemma length_str_rstrip_le: "length (str_rstrip chars s) \<le> length s"
  using length_dropWhile_le [of "strip_pred chars" "rev s"] by (simp add: str_rstrip_def)

lemma length_str_strip_le: "length (str_strip chars s) \<le> length s"
  unfolding str_strip_def
  using length_str_rstrip_le [of chars "str_lstrip chars s"] length_str_lstrip_le [of chars s]
  by (rule le_trans)

lemma str_lstrip_length_eq: "length (str_lstrip chars s) = length s \<Longrightarrow> str_lstrip chars s = s"
  unfolding str_lstrip_def by (rule dropWhile_length_eq)

lemma str_rstrip_length_eq: "length (str_rstrip chars s) = length s \<Longrightarrow> str_rstrip chars s = s"
proof -
  assume "length (str_rstrip chars s) = length s"
  then have "length (dropWhile (strip_pred chars) (rev s)) = length (rev s)"
    by (simp add: str_rstrip_def)
  then have "dropWhile (strip_pred chars) (rev s) = rev s" by (rule dropWhile_length_eq)
  then show ?thesis by (simp add: str_rstrip_def)
qed

lemma str_strip_length_eq:
  assumes "length (str_strip chars s) = length s"
  shows "str_lstrip chars s = s" and "str_rstrip chars s = s"
proof -
  have "length (str_lstrip chars s) = length s"
    using assms length_str_rstrip_le [of chars "str_lstrip chars s"] length_str_lstrip_le [of chars s]
    by (simp add: str_strip_def)
  then show l: "str_lstrip chars s = s" by (rule str_lstrip_length_eq)
  then have "length (str_rstrip chars s) = length s" using assms by (simp add: str_strip_def)
  then show "str_rstrip chars s = s" by (rule str_rstrip_length_eq)
qed

lemma str_lstrip_id_iff: "str_lstrip chars s = s \<longleftrightarrow> (s = [] \<or> \<not> strip_pred chars (hd s))"
  by (simp add: str_lstrip_def dropWhile_eq_self_iff)

lemma str_rstrip_id_iff: "str_rstrip chars s = s \<longleftrightarrow> (s = [] \<or> \<not> strip_pred chars (last s))"
proof -
  have "str_rstrip chars s = s \<longleftrightarrow> dropWhile (strip_pred chars) (rev s) = rev s"
    unfolding str_rstrip_def by (metis rev_rev_ident)
  then show ?thesis by (simp add: dropWhile_eq_self_iff hd_rev)
qed

lemma str_rstrip_prefix: "\<exists>z. s = str_rstrip chars s @ z"
proof -
  have "rev s = takeWhile (strip_pred chars) (rev s) @ dropWhile (strip_pred chars) (rev s)"
    by simp
  then have "s = rev (dropWhile (strip_pred chars) (rev s)) @ rev (takeWhile (strip_pred chars) (rev s))"
    by (metis rev_append rev_rev_ident)
  then show ?thesis unfolding str_rstrip_def by blast
qed

lemma str_strip_ends:
  "str_strip chars s = [] \<or>
   (\<not> strip_pred chars (hd (str_strip chars s)) \<and> \<not> strip_pred chars (last (str_strip chars s)))"
proof (cases "str_strip chars s = []")
  case True
  then show ?thesis by simp
next
  case False
  let ?d = "str_lstrip chars s"
  let ?y = "str_strip chars s"
  have y: "?y = rev (dropWhile (strip_pred chars) (rev ?d))"
    by (simp add: str_strip_def str_rstrip_def)
  from False y have ne: "dropWhile (strip_pred chars) (rev ?d) \<noteq> []" by simp
  then have "\<not> strip_pred chars (hd (dropWhile (strip_pred chars) (rev ?d)))"
    by (rule hd_dropWhile)
  then have l: "\<not> strip_pred chars (last ?y)" using ne y by (simp add: last_rev)
  obtain z where z: "?d = ?y @ z"
    using str_rstrip_prefix [of ?d chars] unfolding str_strip_def by blast
  then have dne: "?d \<noteq> []" using False by auto
  then have "\<not> strip_pred chars (hd ?d)"
    unfolding str_lstrip_def by (rule hd_dropWhile)
  moreover have "hd ?d = hd ?y" using z False by (metis hd_append2)
  ultimately show ?thesis using l by simp
qed

lemma str_strip_idem: "str_strip chars (str_strip chars s) = str_strip chars s"
proof -
  let ?y = "str_strip chars s"
  have e: "?y = [] \<or> (\<not> strip_pred chars (hd ?y) \<and> \<not> strip_pred chars (last ?y))"
    by (rule str_strip_ends)
  then have l: "str_lstrip chars ?y = ?y" by (auto simp: str_lstrip_id_iff)
  from e have "str_rstrip chars ?y = ?y" by (auto simp: str_rstrip_id_iff)
  with l show ?thesis by (simp add: str_strip_def [of chars "str_strip chars s"])
qed

lemma str_strip_middle:
  assumes "m \<noteq> []" "\<not> strip_pred chars (hd m)" "\<not> strip_pred chars (last m)"
  shows "str_strip chars (a @ m @ b) = str_lstrip chars a @ m @ str_rstrip chars b"
proof -
  let ?P = "strip_pred chars"
  obtain h t where m1: "m = h # t" using assms(1) by (cases m) auto
  obtain i l where m2: "m = i @ [l]" using assms(1) by (metis rev_exhaust)
  have h: "\<not> ?P h" using assms(2) m1 by simp
  have l: "\<not> ?P l" using assms(3) m2 by simp
  have "str_lstrip chars (a @ m @ b) = dropWhile ?P a @ m @ b"
    unfolding str_lstrip_def m1 using h by (simp add: dropWhile_append3)
  moreover have "str_rstrip chars (dropWhile ?P a @ m @ b) = dropWhile ?P a @ m @ str_rstrip chars b"
  proof -
    have r: "rev (dropWhile ?P a @ m @ b) = rev b @ l # (rev i @ rev (dropWhile ?P a))"
      unfolding m2 by simp
    have "dropWhile ?P (rev b @ l # (rev i @ rev (dropWhile ?P a)))
          = dropWhile ?P (rev b) @ l # (rev i @ rev (dropWhile ?P a))"
      using l by (rule dropWhile_append3)
    then show ?thesis unfolding str_rstrip_def r unfolding m2 by simp
  qed
  ultimately show ?thesis by (simp add: str_strip_def str_lstrip_def)
qed

lemma tick_pred: "strip_pred (Some ''```'') c \<longleftrightarrow> c = CHR 0x60"
  by (auto simp: strip_pred_def)

lemma strip_pred_python:
  "chars = None \<or> chars = Some ''```'' \<Longrightarrow>
   \<not> strip_pred chars (hd ''python'') \<and> \<not> strip_pred chars (last ''python'')"
  by (auto simp: strip_pred_def isspace_def)

subsection \<open>Frames and the derived columns\<close>

lemma map2_map_same:
  "map2 f (map g xs) (map h xs) = map (\<lambda>x. f (g x) (h x)) xs"
  by (induction xs) simp_all

lemma map_of_float_column:
  "map_of (float_column name field rs) k =
     (if k = name \<and> list_ex (\<lambda>r. field r \<noteq> None) rs
      then Some (Floats (map (\<lambda>r. missing_nan (field r)) rs)) else None)"
  by (simp add: float_column_def)

lemma map_of_DataFrame:
  "map_of (DataFrame rs) ''date'' =
     (if list_ex (\<lambda>r. date r \<noteq> None) rs then Some (Strings (map date rs)) else None)"
  "map_of (DataFrame rs) ''revenue'' =
     (if list_ex (\<lambda>r. revenue r \<noteq> None) rs
      then Some (Floats (map (\<lambda>r. missing_nan (revenue r)) rs)) else None)"
  "map_of (DataFrame rs) ''total_liabilities'' =
     (if list_ex (\<lambda>r. total_liabilities r \<noteq> None) rs
      then Some (Floats (map (\<lambda>r. missing_nan (total_liabilities r)) rs)) else None)"
  "map_of (DataFrame rs) ''total_equity'' =
     (if list_ex (\<lambda>r. total_equity r \<noteq> None) rs
      then Some (Floats (map (\<lambda>r. missing_nan (total_equity r)) rs)) else None)"
  "map_of (DataFrame rs) ''total_assets'' =
     (if list_ex (\<lambda>r. total_assets r \<noteq> None) rs
      then Some (Floats (map (\<lambda>r. missing_nan (total_assets r)) rs)) else None)"
  by (simp_all add: DataFrame_def map_of_float_column map_add_def)

lemma DataFrame_full:
  assumes "list_ex (\<lambda>r. date r \<noteq> None) rs" "list_ex (\<lambda>r. revenue r \<noteq> None) rs"
    "list_ex (\<lambda>r. total_liabilities r \<noteq> None) rs" "list_ex (\<lambda>r. total_equity r \<noteq> None) rs"
    "list_ex (\<lambda>r. total_assets r \<noteq> None) rs"
  shows "DataFrame rs =
    [(''date'', Strings (map date rs)),
     (''revenue'', Floats (map (\<lambda>r. missing_nan (revenue r)) rs)),
     (''total_liabilities'', Floats (map (\<lambda>r. missing_nan (total_liabilities r)) rs)),
     (''total_equity'', Floats (map (\<lambda>r. missing_nan (total_equity r)) rs)),
     (''total_assets'', Floats (map (\<lambda>r. missing_nan (total_assets r)) rs))]"
  using assms by (simp add: DataFrame_def float_column_def)

lemma map_of_setitem: "map_of (setitem f k c) = (map_of f)(k \<mapsto> c)"
  by (simp add: setitem_def update_conv')

lemma getitem_setitem:
  "getitem (setitem f k c) k' = (if k' = k then Returned c else getitem f k')"
  by (simp add: getitem_def map_of_setitem)

lemma columns_absent_date:
  "\<not> list_ex (\<lambda>r. date r \<noteq> None) rs \<Longrightarrow>
   financial_summary_columns w (DataFrame rs) = Raised (KeyError ''date'')"
  by (simp add: financial_summary_columns_def getitem_def map_of_DataFrame)

lemma columns_eq:
  assumes "list_ex (\<lambda>r. date r \<noteq> None) rs"
  shows "financial_summary_columns w (DataFrame rs) =
     and_then (to_datetime_cells (parse_datetime w) (map date rs)) (\<lambda>ts.
       if \<not> list_ex (\<lambda>r. total_liabilities r \<noteq> None) rs then Raised (KeyError ''total_liabilities'')
       else if \<not> list_ex (\<lambda>r. total_equity r \<noteq> None) rs then Raised (KeyError ''total_equity'')
       else if \<not> list_ex (\<lambda>r. revenue r \<noteq> None) rs then Raised (KeyError ''revenue'')
       else if \<not> list_ex (\<lambda>r. total_assets r \<noteq> None) rs then Raised (KeyError ''total_assets'')
       else Returned
         [(''date'', Strings (map (map_option (strftime ''%m-%Y'')) ts)),
          (''revenue'', Floats (map (\<lambda>r. missing_nan (revenue r)) rs)),
          (''total_liabilities'', Floats (map (\<lambda>r. missing_nan (total_liabilities r)) rs)),
          (''total_equity'', Floats (map (\<lambda>r. missing_nan (total_equity r)) rs)),
          (''total_assets'', Floats (map (\<lambda>r. missing_nan (total_assets r)) rs)),
          (''DER'', Floats (map (\<lambda>r. float_truediv (missing_nan (total_liabilities r))
                                     (missing_nan (total_equity r))) rs)),
          (''asset_turnover'', Floats (map (\<lambda>r. float_truediv (missing_nan (revenue r))
                                     (missing_nan (total_assets r))) rs))])"
proof (cases "to_datetime_cells (parse_datetime w) (map date rs)")
  case (Returned ts)
  show ?thesis
  proof (cases "list_ex (\<lambda>r. revenue r \<noteq> None) rs \<and> list_ex (\<lambda>r. total_liabilities r \<noteq> None) rs
      \<and> list_ex (\<lambda>r. total_equity r \<noteq> None) rs \<and> list_ex (\<lambda>r. total_assets r \<noteq> None) rs")
    case True
    then show ?thesis
      using assms Returned
      by (simp add: DataFrame_full financial_summary_columns_def getitem_def setitem_def
          to_datetime_def dt_strftime_def truediv_def map2_map_same)
  next
    case False
    then show ?thesis
      using assms Returned
      by (auto simp add: financial_summary_columns_def getitem_def map_of_setitem map_of_DataFrame
          to_datetime_def dt_strftime_def truediv_def)
  qed
next
  case (Raised e)
  then show ?thesis using assms
    by (simp add: financial_summary_columns_def getitem_def map_of_DataFrame to_datetime_def)
next
  case Hangs
  then show ?thesis using assms
    by (simp add: financial_summary_columns_def getitem_def map_of_DataFrame to_datetime_def)
qed

lemma to_datetime_cells_readable:
  "list_all (\<lambda>x. case x of None \<Rightarrow> True | Some d \<Rightarrow> parse d \<noteq> None) xs \<Longrightarrow>
   to_datetime_cells parse xs = Returned (map (\<lambda>x. Option.bind x parse) xs)"
proof (induction xs)
  case Nil
  show ?case by simp
next
  case (Cons x xs)
  then show ?case by (cases x) auto
qed

lemma to_datetime_cells_Returned:
  "to_datetime_cells parse xs = Returned ts \<Longrightarrow> ts = map (\<lambda>x. Option.bind x parse) xs"
proof (induction xs arbitrary: ts)
  case Nil
  then show ?case by simp
next
  case (Cons x xs)
  show ?case
  proof (cases x)
    case None
    with Cons.prems obtain ts' where "to_datetime_cells parse xs = Returned ts'" "ts = None # ts'"
      by (cases "to_datetime_cells parse xs") auto
    with Cons.IH None show ?thesis by simp
  next
    case (Some d)
    with Cons.prems obtain t where t: "parse d = Some t"
      by (cases "parse d") auto
    with Cons.prems Some obtain ts' where "to_datetime_cells parse xs = Returned ts'" "ts = Some t # ts'"
      by (cases "to_datetime_cells parse xs") auto
    with Cons.IH Some t show ?thesis by simp
  qed
qed

lemma readable_records:
  "list_all (\<lambda>r. case date r of None \<Rightarrow> True | Some d \<Rightarrow> parse d \<noteq> None) rs \<Longrightarrow>
   to_datetime_cells parse (map date rs) = Returned (map (\<lambda>r. Option.bind (date r) parse) rs)"
  using to_datetime_cells_readable [of parse "map date rs"]
  by (simp add: list.pred_map comp_def)

text \<open>The derived frame, when derivation returns.\<close>

lemma columns_Returned:
  assumes "financial_summary_columns w (DataFrame rs) = Returned f"
  shows "list_ex (\<lambda>r. date r \<noteq> None) rs \<and> list_ex (\<lambda>r. revenue r \<noteq> None) rs
     \<and> list_ex (\<lambda>r. total_liabilities r \<noteq> None) rs \<and> list_ex (\<lambda>r. total_equity r \<noteq> None) rs
     \<and> list_ex (\<lambda>r. total_assets r \<noteq> None) rs
     \<and> f = [(''date'', Strings (map (\<lambda>r. map_option (strftime ''%m-%Y'')
                                     (Option.bind (date r) (parse_datetime w))) rs)),
          (''revenue'', Floats (map (\<lambda>r. missing_nan (revenue r)) rs)),
          (''total_liabilities'', Floats (map (\<lambda>r. missing_nan (total_liabilities r)) rs)),
          (''total_equity'', Floats (map (\<lambda>r. missing_nan (total_equity r)) rs)),
          (''total_assets'', Floats (map (\<lambda>r. missing_nan (total_assets r)) rs)),
          (''DER'', Floats (map (\<lambda>r. float_truediv (missing_nan (total_liabilities r))
                                     (missing_nan (total_equity r))) rs)),
          (''asset_turnover'', Floats (map (\<lambda>r. float_truediv (missing_nan (revenue r))
                                     (missing_nan (total_assets r))) rs))]"
proof -
  have d: "list_ex (\<lambda>r. date r \<noteq> None) rs"
    using assms columns_absent_date [of rs w] by auto
  from assms obtain ts where ts: "to_datetime_cells (parse_datetime w) (map date rs) = Returned ts"
    unfolding columns_eq [OF d]
    by (cases "to_datetime_cells (parse_datetime w) (map date rs)") auto
  then have "ts = map (\<lambda>x. Option.bind x (parse_datetime w)) (map date rs)"
    by (rule to_datetime_cells_Returned)
  then have ts': "map (map_option (strftime ''%m-%Y'')) ts
      = map (\<lambda>r. map_option (strftime ''%m-%Y'') (Option.bind (date r) (parse_datetime w))) rs"
    by simp
  show ?thesis
    using assms d unfolding columns_eq [OF d] ts and_then_simps ts'
    by (auto split: if_splits)
qed



subsection \<open>Evaluation in the sample world\<close>

lemmas sample_simps =
  sample_world_def quarter_def iso_date_def is_digit_def number_def pad2_def pad4_def digit_def
  float_truediv_def is_zero_def is_inf_def missing_nan_def


subsection \<open>Templates\<close>

lemma parse_format_plain_append:
  "CHR ''{'' \<notin> set pre \<Longrightarrow> CHR ''}'' \<notin> set pre \<Longrightarrow>
   parse_format (pre @ rest) =
     and_then (parse_format rest) (\<lambda>ps. Returned (map Literal pre @ ps))"
proof (induction pre)
  case Nil
  show ?case by (cases "parse_format rest") simp_all
next
  case (Cons c pre)
  then show ?case by (cases "parse_format rest") auto
qed

lemma parse_format_plain:
  "CHR ''{'' \<notin> set s \<Longrightarrow> CHR ''}'' \<notin> set s \<Longrightarrow> parse_format s = Returned (map Literal s)"
  using parse_format_plain_append [of s "[]"] by simp

lemma parse_format_data_field:
  "parse_format (''{data}'' @ rest) =
     and_then (parse_format rest) (\<lambda>ps. Returned (Field ''data'' # ps))"
  by simp

lemma format_pieces_literals:
  "format_pieces (map Literal s @ ps) data =
     and_then (format_pieces ps data) (\<lambda>r. Returned (s @ r))"
proof (induction s)
  case Nil
  show ?case by (cases "format_pieces ps data") simp_all
next
  case (Cons c s)
  then show ?case by (cases "format_pieces ps data") simp_all
qed

lemma format_template_one_field:
  assumes "CHR ''{'' \<notin> set pre" "CHR ''}'' \<notin> set pre"
    "CHR ''{'' \<notin> set post" "CHR ''}'' \<notin> set post"
  shows "format_template (pre @ ''{data}'' @ post) data = Returned (pre @ data @ post)"
proof -
  have "parse_format (pre @ ''{data}'' @ post)
        = Returned (map Literal pre @ Field ''data'' # map Literal post)"
    using assms by (simp add: parse_format_plain_append parse_format_plain del: parse_format.simps)
       (simp add: parse_format_plain)
  moreover have "format_pieces (map Literal pre @ Field ''data'' # map Literal post) data
        = Returned (pre @ data @ post)"
    using format_pieces_literals [of post "[]" data]
    by (simp add: format_pieces_literals)
  ultimately show ?thesis by (simp add: format_template_def)
qed

lemma summary_prompt_shape:
  "summary_prompt = take 607 summary_prompt @ ''{data}'' @ drop 613 summary_prompt
   \<and> CHR ''{'' \<notin> set (take 607 summary_prompt) \<and> CHR ''}'' \<notin> set (take 607 summary_prompt)
   \<and> CHR ''{'' \<notin> set (drop 613 summary_prompt) \<and> CHR ''}'' \<notin> set (drop 613 summary_prompt)"
  by (simp add: summary_prompt_def)

lemma compose_prompt_one_field:
  assumes "CHR ''{'' \<notin> set pre" "CHR ''}'' \<notin> set pre"
    "CHR ''{'' \<notin> set post" "CHR ''}'' \<notin> set post"
  shows "compose_prompt w (pre @ ''{data}'' @ post) data = Returned (pre @ to_string w data @ post)"
  unfolding compose_prompt_def using assms by (rule format_template_one_field)

lemma trend_prompt_shape:
  "trend_prompt = take 274 trend_prompt @ ''{data}'' @ drop 280 trend_prompt
   \<and> CHR ''{'' \<notin> set (take 274 trend_prompt) \<and> CHR ''}'' \<notin> set (take 274 trend_prompt)
   \<and> CHR ''{'' \<notin> set (drop 280 trend_prompt) \<and> CHR ''}'' \<notin> set (drop 280 trend_prompt)"
  by (simp add: trend_prompt_def)

lemma risk_prompt_shape:
  "risk_prompt = take 324 risk_prompt @ ''{data}'' @ drop 330 risk_prompt
   \<and> CHR ''{'' \<notin> set (take 324 risk_prompt) \<and> CHR ''}'' \<notin> set (take 324 risk_prompt)
   \<and> CHR ''{'' \<notin> set (drop 330 risk_prompt) \<and> CHR ''}'' \<notin> set (drop 330 risk_prompt)"
  by (simp add: risk_prompt_def)

lemma compose_summary_prompt:
  "compose_prompt w summary_prompt data =
     Returned (take 607 summary_prompt @ to_string w data @ drop 613 summary_prompt)"
proof -
  note s = summary_prompt_shape
  have "compose_prompt w (take 607 summary_prompt @ ''{data}'' @ drop 613 summary_prompt) data =
     Returned (take 607 summary_prompt @ to_string w data @ drop 613 summary_prompt)"
    using s by (intro compose_prompt_one_field) blast+
  then show ?thesis using s by metis
qed

lemma compose_trend_prompt:
  "compose_prompt w trend_prompt data =
     Returned (take 274 trend_prompt @ to_string w data @ drop 280 trend_prompt)"
proof -
  note s = trend_prompt_shape
  have "compose_prompt w (take 274 trend_prompt @ ''{data}'' @ drop 280 trend_prompt) data =
     Returned (take 274 trend_prompt @ to_string w data @ drop 280 trend_prompt)"
    using s by (intro compose_prompt_one_field) blast+
  then show ?thesis using s by metis
qed

lemma compose_risk_prompt:
  "compose_prompt w risk_prompt data =
     Returned (take 324 risk_prompt @ to_string w data @ drop 330 risk_prompt)"
proof -
  note s = risk_prompt_shape
  have "compose_prompt w (take 324 risk_prompt @ ''{data}'' @ drop 330 risk_prompt) data =
     Returned (take 324 risk_prompt @ to_string w data @ drop 330 risk_prompt)"
    using s by (intro compose_prompt_one_field) blast+
  then show ?thesis using s by metis
qed


lemma run_llm_page: "page (snd (run_llm w t d s)) = page s"
  by (simp add: run_llm_def llm_invoke_def split: outcome.splits)

lemma run_llm_Returned:
  "compose_prompt w t d = Returned p \<Longrightarrow>
   run_llm w t d s = (groq w (sent s) p, s\<lparr>sent := sent s @ [p]\<rparr>)"
  by (simp add: run_llm_def llm_invoke_def)

subsection \<open>The panels\<close>

lemma empty_dict_lookup [simp]: "empty_dict name = None"
  by (simp add: empty_dict_def)

lemma exec_scope_empty:
  "exec_scope w empty_dict empty_dict name =
     (if name = ''__builtins__'' then Some builtins_module else members w builtins_module name)"
  by (simp add: exec_scope_def with_builtins_def empty_dict_def)

lemma revenue_trend_after_answer:
  assumes "getitems financials
             [''date'', ''revenue'', ''total_liabilities'', ''total_equity'', ''total_assets'',
              ''DER'', ''asset_turnover''] = Returned data_sample"
    and "groq w (sent s) (revenue_trend_prompt (frame_str w data_sample)) = Returned content"
  shows "revenue_trend w symbol financials s =
     (let s' = s\<lparr>sent := sent s @ [revenue_trend_prompt (frame_str w data_sample)],
                  page := page s @ [Subheader ''Visualisasi Tren Keuangan'']\<rparr>
      in case py_exec w (clean_python_code content) empty_dict empty_dict of
           Returned exec_locals \<Rightarrow>
             (case exec_locals ''fig'' of
                None \<Rightarrow> (Raised (KeyError ''fig''), s')
              | Some fig \<Rightarrow>
                  (case plotly_chart_check w fig of
                     Returned u \<Rightarrow> (Returned (), s'\<lparr>page := page s' @ [PlotlyChart fig]\<rparr>)
                   | Raised e \<Rightarrow> (Raised e, s')
                   | Hangs \<Rightarrow> (Hangs, s')))
         | Raised e \<Rightarrow> (Raised e, s')
         | Hangs \<Rightarrow> (Hangs, s'))"
  unfolding revenue_trend_def assms(1)
  using assms(2)
  by (simp add: llm_invoke_def render_def Let_def split: outcome.splits option.splits)

lemma risk_analysis_Raised:
  "risk_analysis w f s = (Raised e, s') \<Longrightarrow> page s' = page s"
  unfolding risk_analysis_def
  using run_llm_page [of w risk_prompt f s]
  by (cases "run_llm w risk_prompt f s"; cases "fst (run_llm w risk_prompt f s)") auto

subsection \<open>The panels in the sample world\<close>

lemma sample_world_fields [simp]:
  "sectors_api (sample_world rs svc) = (\<lambda>url params. Returned rs)"
  "parse_datetime (sample_world rs svc) = iso_date"
  "to_string (sample_world rs svc) = column_names"
  "frame_str (sample_world rs svc) = column_names"
  "groq (sample_world rs svc) = svc"
  "run_program (sample_world rs svc) = assignment_program"
  "members (sample_world rs svc) = sample_members"
  "plotly_chart_check (sample_world rs svc) = accepts_objects"
  by (simp_all add: sample_world_def)

lemma sample_frame:
  "financial_summary_frame (sample_world two_quarters svc) symbol = Returned two_quarters_frame"
  by (simp add: financial_summary_frame_def fetch_data_def two_quarters_def two_quarters_frame_def
      columns_eq readable_records quarter_def iso_date_def is_digit_def number_def pad2_def
      pad4_def digit_def float_truediv_def is_zero_def is_inf_def missing_nan_def)

lemma sample_data_sample:
  "getitems two_quarters_frame
     [''date'', ''revenue'', ''total_liabilities'', ''total_equity'', ''total_assets'',
      ''DER'', ''asset_turnover''] = Returned two_quarters_frame"
  by (simp add: two_quarters_frame_def)

lemma clean_fenced_fig: "clean_python_code fenced_fig = ''fig = {}''"
  unfolding fenced_fig_def by code_simp

lemma sample_exec_fig:
  "py_exec (sample_world rs svc) ''fig = {}'' empty_dict empty_dict
     = Returned (empty_dict(''fig'' \<mapsto> Object ''{}''))"
  by (simp add: py_exec_def assignment_program_def empty_dict_def)

lemma sample_summary:
  "financial_summary (sample_world two_quarters svc) symbol s =
     then_do (svc (sent s) (take 607 summary_prompt @ column_names two_quarters_frame
                             @ drop 613 summary_prompt),
              s\<lparr>sent := sent s @ [take 607 summary_prompt @ column_names two_quarters_frame
                             @ drop 613 summary_prompt]\<rparr>)
       (\<lambda>summary s. (Returned two_quarters_frame,
          render (Markdown summary) (render (Subheader ''Ringkasan Keuangan'') s)))"
  by (simp add: financial_summary_def sample_frame run_llm_Returned [OF compose_summary_prompt])

lemma sample_visual:
  "svc (sent s) (revenue_trend_prompt (column_names two_quarters_frame)) = Returned fenced_fig \<Longrightarrow>
   revenue_trend (sample_world rs svc) symbol two_quarters_frame s =
     (Returned (),
      s\<lparr>sent := sent s @ [revenue_trend_prompt (column_names two_quarters_frame)],
        page := page s @ [Subheader ''Visualisasi Tren Keuangan'', PlotlyChart (Object ''{}'')]\<rparr>)"
  unfolding revenue_trend_def sample_data_sample
  by (simp add: llm_invoke_def clean_fenced_fig sample_exec_fig render_def accepts_objects_def)

lemma sample_trend:
  "trend_analysis (sample_world rs svc) two_quarters_frame s =
     then_do (svc (sent s) (take 274 trend_prompt @ column_names two_quarters_frame
                             @ drop 280 trend_prompt),
              s\<lparr>sent := sent s @ [take 274 trend_prompt @ column_names two_quarters_frame
                             @ drop 280 trend_prompt]\<rparr>)
       (\<lambda>analysis s. (Returned (),
          render (Markdown analysis) (render (Subheader ''Interpretasi Tren Keuangan'') s)))"
  by (simp add: trend_analysis_def run_llm_Returned [OF compose_trend_prompt])

lemma sample_risk:
  "risk_analysis (sample_world rs svc) two_quarters_frame s =
     then_do (svc (sent s) (take 324 risk_prompt @ column_names two_quarters_frame
                             @ drop 330 risk_prompt),
              s\<lparr>sent := sent s @ [take 324 risk_prompt @ column_names two_quarters_frame
                             @ drop 330 risk_prompt]\<rparr>)
       (\<lambda>risks s. (Returned (),
          render (Markdown risks) (render (Subheader ''Potensi Risiko Keuangan'') s)))"
  by (simp add: risk_analysis_def run_llm_Returned [OF compose_risk_prompt])

section \<open>The claims\<close>

subsection \<open>The sanitizer\<close>

text \<open>
  C3, as amended. The sanitizer is not idempotent on every string. A second pass leaves
  a sanitized string as it is exactly when that string holds no occurrence of
  \<^verbatim>\<open>python\<close> and neither starts nor ends with a backquote.
\<close>

theorem clean_python_code_idempotent_iff:
  "clean_python_code (clean_python_code x) = clean_python_code x \<longleftrightarrow>
     \<not> sublist ''python'' (clean_python_code x) \<and>
     \<not> prefix ''`'' (clean_python_code x) \<and> \<not> suffix ''`'' (clean_python_code x)"
proof -
  let ?y = "clean_python_code x"
  let ?t = "str_strip (Some ''```'') ?y"
  have ws: "str_strip None ?y = ?y"
    unfolding clean_python_code_def by (rule str_strip_idem)
  have cy: "clean_python_code ?y = str_strip None (str_replace ''python'' '''' ?t)"
    using ws by (simp add: clean_python_code_def [of ?y])
  have ticks: "(str_lstrip (Some ''```'') ?y = ?y \<and> str_rstrip (Some ''```'') ?y = ?y) \<longleftrightarrow>
               (\<not> prefix ''`'' ?y \<and> \<not> suffix ''`'' ?y)"
  proof (cases "?y = []")
    case True
    then show ?thesis by (simp add: str_lstrip_id_iff str_rstrip_id_iff)
  next
    case False
    then obtain h t where ht: "?y = h # t" by (cases ?y) auto
    from False obtain i l where il: "?y = i @ [l]" by (metis rev_exhaust)
    have "prefix ''`'' ?y \<longleftrightarrow> hd ?y = CHR 0x60" unfolding ht by auto
    moreover have "suffix ''`'' ?y \<longleftrightarrow> last ?y = CHR 0x60" unfolding il by (auto simp: suffix_def)
    ultimately show ?thesis using False by (simp add: str_lstrip_id_iff str_rstrip_id_iff tick_pred)
  qed
  show ?thesis
  proof
    assume fp: "clean_python_code ?y = ?y"
    have "length ?y = length (str_strip None (str_replace ''python'' '''' ?t))"
      using fp cy by simp
    also have "\<dots> \<le> length (str_replace ''python'' '''' ?t)" by (rule length_str_strip_le)
    finally have a: "length ?y \<le> length (str_replace ''python'' '''' ?t)" .
    have b: "length (str_replace ''python'' '''' ?t) \<le> length ?t"
      by (rule length_str_replace_le) simp
    have c: "length ?t \<le> length ?y" by (rule length_str_strip_le)
    from a b c have "length ?t = length ?y" by simp
    then have l: "str_lstrip (Some ''```'') ?y = ?y" and r: "str_rstrip (Some ''```'') ?y = ?y"
      by (rule str_strip_length_eq)+
    then have t: "?t = ?y" by (simp add: str_strip_def)
    have "\<not> sublist ''python'' ?y"
    proof
      assume "sublist ''python'' ?y"
      then have "length (str_replace ''python'' '''' ?y) < length ?y"
        by (intro length_str_replace_less) simp_all
      with a t show False by simp
    qed
    with l r ticks show "\<not> sublist ''python'' ?y \<and> \<not> prefix ''`'' ?y \<and> \<not> suffix ''`'' ?y"
      by simp
  next
    assume h: "\<not> sublist ''python'' ?y \<and> \<not> prefix ''`'' ?y \<and> \<not> suffix ''`'' ?y"
    with ticks have "?t = ?y" by (simp add: str_strip_def)
    moreover have "str_replace ''python'' '''' ?y = ?y"
      using h by (intro str_replace_absent) simp_all
    ultimately show "clean_python_code ?y = ?y" using cy ws by simp
  qed
qed

text \<open>
  The amended C3 at a fenced program: one pass gives \<^verbatim>\<open>x = 1\<close>, which a second pass
  keeps.
\<close>

theorem clean_python_code_idempotent_witness:
  "clean_python_code (clean_python_code ''```python
x = 1
```'') = ''x = 1''"
proof -
  have c: "clean_python_code ''```python
x = 1
```'' = ''x = 1''"
    by code_simp
  have "clean_python_code ''x = 1'' = ''x = 1'' \<longleftrightarrow>
          \<not> sublist ''python'' ''x = 1'' \<and> \<not> prefix ''`'' ''x = 1'' \<and> \<not> suffix ''`'' ''x = 1''"
    using clean_python_code_idempotent_iff [of "''```python
x = 1
```''"] unfolding c .
  moreover have "\<not> sublist ''python'' ''x = 1''"
    by (auto simp: sublist_Cons_right)
  moreover have "\<not> prefix ''`'' ''x = 1''"
    by simp
  moreover have "\<not> suffix ''`'' ''x = 1''"
    by (simp add: suffix_def)
  ultimately have "clean_python_code ''x = 1'' = ''x = 1''"
    by blast
  then show ?thesis unfolding c .
qed

text \<open>
  C3 as stated fails: deleting the occurrence of \<^verbatim>\<open>python\<close> in \<^verbatim>\<open>pytpythonhon\<close> joins
  a new one, which the second pass deletes.
\<close>

theorem clean_python_code_not_idempotent:
  "clean_python_code (clean_python_code ''pytpythonhon'') \<noteq> clean_python_code ''pytpythonhon''"
  by code_simp

text \<open>
  C9. An occurrence of \<^verbatim>\<open>python\<close> is deleted wherever it stands: whatever text \<open>a\<close>
  precedes it and whatever text \<open>b\<close> follows, the result is the sanitized left part
  followed by the sanitized right part (occurrences in \<open>a\<close> and \<open>b\<close> are deleted in
  the same way), so the six characters are gone from the output. A string literal and
  an identifier of a valid program lose the word, which changes the program.
\<close>

theorem clean_python_code_removes_python:
  \<open>clean_python_code (a @ ''python'' @ b) =
     str_strip None
       (str_replace ''python'' '''' (str_lstrip (Some ''```'') (str_lstrip None a)) @
        str_replace ''python'' '''' (str_rstrip (Some ''```'') (str_rstrip None b)))
   \<and> length (clean_python_code (a @ ''python'' @ b)) \<le> length a + length b
   \<and> clean_python_code ''fig = px.line(df, title="python")'' = ''fig = px.line(df, title="")''
   \<and> clean_python_code ''import python_utils'' = ''import _utils''\<close>
proof -
  let ?l = "str_lstrip (Some ''```'') (str_lstrip None a)"
  let ?r = "str_rstrip (Some ''```'') (str_rstrip None b)"
  have ne: "''python'' \<noteq> []" by simp
  have 1: "str_strip None (a @ ''python'' @ b) = str_lstrip None a @ ''python'' @ str_rstrip None b"
    using ne strip_pred_python [of None] by (intro str_strip_middle) blast+
  have 2: "str_strip (Some ''```'') (str_lstrip None a @ ''python'' @ str_rstrip None b)
           = ?l @ ''python'' @ ?r"
    using ne strip_pred_python [of "Some ''```''"] by (intro str_strip_middle) blast+
  have g: "clean_python_code (a @ ''python'' @ b) =
     str_strip None (str_replace ''python'' '''' ?l @ str_replace ''python'' '''' ?r)"
    unfolding clean_python_code_def 1 2 str_replace_python_append ..
  have "length (clean_python_code (a @ ''python'' @ b))
          \<le> length (str_replace ''python'' '''' ?l @ str_replace ''python'' '''' ?r)"
    unfolding g by (rule length_str_strip_le)
  also have "\<dots> \<le> length ?l + length ?r"
    using length_str_replace_le [OF ne, of ?l] length_str_replace_le [OF ne, of ?r] by simp
  also have "\<dots> \<le> length a + length b"
    using length_str_lstrip_le [of "Some ''```''" "str_lstrip None a"]
      length_str_lstrip_le [of None a]
      length_str_rstrip_le [of "Some ''```''" "str_rstrip None b"]
      length_str_rstrip_le [of None b]
    by linarith
  finally have len: "length (clean_python_code (a @ ''python'' @ b)) \<le> length a + length b" .
  have e1: \<open>clean_python_code ''fig = px.line(df, title="python")'' = ''fig = px.line(df, title="")''\<close>
    by code_simp
  have e2: "clean_python_code ''import python_utils'' = ''import _utils''"
    by code_simp
  from g len e1 e2 show ?thesis by blast
qed

subsection \<open>Metric derivation\<close>







text \<open>
  C8, as amended. No step sorts the records: row i of every column of the derived
  series comes from record i of the sequence the data source returned, and the frame
  that \<^verbatim>\<open>revenue_trend\<close> selects for its prompt is that frame, rows in the same order.
\<close>

theorem derivation_keeps_record_order:
  assumes "financial_summary_columns w (DataFrame rs) = Returned f"
  shows "getitem f ''date'' =
           Returned (Strings (map (\<lambda>r. map_option (strftime ''%m-%Y'')
                                          (Option.bind (date r) (parse_datetime w))) rs))
     \<and> getitem f ''revenue'' = Returned (Floats (map (\<lambda>r. missing_nan (revenue r)) rs))
     \<and> getitem f ''DER'' =
           Returned (Floats (map (\<lambda>r. float_truediv (missing_nan (total_liabilities r))
                                                      (missing_nan (total_equity r))) rs))
     \<and> getitem f ''asset_turnover'' =
           Returned (Floats (map (\<lambda>r. float_truediv (missing_nan (revenue r))
                                                      (missing_nan (total_assets r))) rs))
     \<and> getitems f [''date'', ''revenue'', ''total_liabilities'', ''total_equity'', ''total_assets'',
                    ''DER'', ''asset_turnover''] = Returned f"
  using columns_Returned [OF assms] by (simp add: getitem_def)

theorem derivation_keeps_record_order_witness:
  "financial_summary_columns (sample_world [] (answers ''''))
     (DataFrame [quarter ''2025-06-30'' 500 100 50 1000, quarter ''2025-03-31'' 450 100 50 900,
                 quarter ''2025-09-30'' 550 100 50 1100])
   = Returned
      [(''date'', Strings [Some ''06-2025'', Some ''03-2025'', Some ''09-2025'']),
      (''revenue'', Floats [Fin 500, Fin 450, Fin 550]),
      (''total_liabilities'', Floats [Fin 100, Fin 100, Fin 100]),
      (''total_equity'', Floats [Fin 50, Fin 50, Fin 50]),
      (''total_assets'', Floats [Fin 1000, Fin 900, Fin 1100]),
      (''DER'', Floats [Fin 2, Fin 2, Fin 2]),
      (''asset_turnover'', Floats [Fin (1 / 2), Fin (1 / 2), Fin (1 / 2)])]
   \<and> getitem
     [(''date'', Strings [Some ''06-2025'', Some ''03-2025'', Some ''09-2025'']),
      (''revenue'', Floats [Fin 500, Fin 450, Fin 550]),
      (''total_liabilities'', Floats [Fin 100, Fin 100, Fin 100]),
      (''total_equity'', Floats [Fin 50, Fin 50, Fin 50]),
      (''total_assets'', Floats [Fin 1000, Fin 900, Fin 1100]),
      (''DER'', Floats [Fin 2, Fin 2, Fin 2]),
      (''asset_turnover'', Floats [Fin (1 / 2), Fin (1 / 2), Fin (1 / 2)])] ''date''
   = Returned (Strings [Some ''06-2025'', Some ''03-2025'', Some ''09-2025''])"
proof -
  have h: "financial_summary_columns (sample_world [] (answers ''''))
     (DataFrame [quarter ''2025-06-30'' 500 100 50 1000, quarter ''2025-03-31'' 450 100 50 900,
                 quarter ''2025-09-30'' 550 100 50 1100])
   = Returned
      [(''date'', Strings [Some ''06-2025'', Some ''03-2025'', Some ''09-2025'']),
      (''revenue'', Floats [Fin 500, Fin 450, Fin 550]),
      (''total_liabilities'', Floats [Fin 100, Fin 100, Fin 100]),
      (''total_equity'', Floats [Fin 50, Fin 50, Fin 50]),
      (''total_assets'', Floats [Fin 1000, Fin 900, Fin 1100]),
      (''DER'', Floats [Fin 2, Fin 2, Fin 2]),
      (''asset_turnover'', Floats [Fin (1 / 2), Fin (1 / 2), Fin (1 / 2)])]"
    by (simp add: columns_eq readable_records sample_simps)
  from derivation_keeps_record_order [OF h, THEN conjunct1] have
    "getitem
     [(''date'', Strings [Some ''06-2025'', Some ''03-2025'', Some ''09-2025'']),
      (''revenue'', Floats [Fin 500, Fin 450, Fin 550]),
      (''total_liabilities'', Floats [Fin 100, Fin 100, Fin 100]),
      (''total_equity'', Floats [Fin 50, Fin 50, Fin 50]),
      (''total_assets'', Floats [Fin 1000, Fin 900, Fin 1100]),
      (''DER'', Floats [Fin 2, Fin 2, Fin 2]),
      (''asset_turnover'', Floats [Fin (1 / 2), Fin (1 / 2), Fin (1 / 2)])] ''date''
   = Returned (Strings [Some ''06-2025'', Some ''03-2025'', Some ''09-2025''])"
    by (simp add: sample_simps)
  with h show ?thesis by (rule conjI)
qed

text \<open>
  C8 as stated fails: the data source returns June, March, September, and the derived
  series has them in that order, ascending neither forwards nor backwards.
\<close>

theorem unsorted_records_stay_unsorted:
  "financial_summary_columns (sample_world [] (answers ''''))
     (DataFrame [quarter ''2025-06-30'' 500 100 50 1000, quarter ''2025-03-31'' 450 100 50 900,
                 quarter ''2025-09-30'' 550 100 50 1100])
   = Returned
      [(''date'', Strings [Some ''06-2025'', Some ''03-2025'', Some ''09-2025'']),
      (''revenue'', Floats [Fin 500, Fin 450, Fin 550]),
      (''total_liabilities'', Floats [Fin 100, Fin 100, Fin 100]),
      (''total_equity'', Floats [Fin 50, Fin 50, Fin 50]),
      (''total_assets'', Floats [Fin 1000, Fin 900, Fin 1100]),
      (''DER'', Floats [Fin 2, Fin 2, Fin 2]),
      (''asset_turnover'', Floats [Fin (1 / 2), Fin (1 / 2), Fin (1 / 2)])]
   \<and> \<not> sorted (map month_year_key [Some ''06-2025'', Some ''03-2025'', Some ''09-2025''])
   \<and> \<not> sorted (rev (map month_year_key [Some ''06-2025'', Some ''03-2025'', Some ''09-2025'']))"
  by (simp add: columns_eq readable_records sample_simps month_year_key_def)



subsection \<open>Prompt composition\<close>



subsection \<open>Execution of the generated program\<close>

text \<open>
  C1, as amended. The executor injects no name: it passes an empty \<open>globals\<close> and an
  empty \<open>locals\<close>, so no name of the calling script (neither the data value nor a
  plotting primitive) is visible to the executed program. What the program can reach
  is exactly the namespace of Python's built-ins, and \<^verbatim>\<open>__builtins__\<close> itself: whatever
  that module holds, the file, import and process functions included.
\<close>

theorem executed_program_sees_builtins_only:
  "exec_scope w empty_dict empty_dict name =
     (if name = ''__builtins__'' then Some builtins_module else members w builtins_module name)
   \<and> (getitems financials
         [''date'', ''revenue'', ''total_liabilities'', ''total_equity'', ''total_assets'',
          ''DER'', ''asset_turnover''] = Returned data_sample
       \<and> groq w (sent s) (revenue_trend_prompt (frame_str w data_sample)) = Returned content
      \<longrightarrow> fst (revenue_trend w symbol financials s) =
           (case run_program w (clean_python_code content)
                   (\<lambda>name. if name = ''__builtins__'' then Some builtins_module
                           else members w builtins_module name)
                   empty_dict of
              Returned exec_locals \<Rightarrow>
                (case exec_locals ''fig'' of
                   None \<Rightarrow> Raised (KeyError ''fig'')
                 | Some fig \<Rightarrow> and_then (plotly_chart_check w fig) (\<lambda>u. Returned ()))
            | Raised e \<Rightarrow> Raised e
            | Hangs \<Rightarrow> Hangs))"
proof (intro conjI impI)
  show "exec_scope w empty_dict empty_dict name =
     (if name = ''__builtins__'' then Some builtins_module else members w builtins_module name)"
    by (rule exec_scope_empty)
next
  assume a: "getitems financials
         [''date'', ''revenue'', ''total_liabilities'', ''total_equity'', ''total_assets'',
          ''DER'', ''asset_turnover''] = Returned data_sample
       \<and> groq w (sent s) (revenue_trend_prompt (frame_str w data_sample)) = Returned content"
  have scope: "exec_scope w empty_dict empty_dict =
      (\<lambda>name. if name = ''__builtins__'' then Some builtins_module
               else members w builtins_module name)"
    by (rule ext) (rule exec_scope_empty)
  from a have "revenue_trend w symbol financials s =
     (let s' = s\<lparr>sent := sent s @ [revenue_trend_prompt (frame_str w data_sample)],
                  page := page s @ [Subheader ''Visualisasi Tren Keuangan'']\<rparr>
      in case py_exec w (clean_python_code content) empty_dict empty_dict of
           Returned exec_locals \<Rightarrow>
             (case exec_locals ''fig'' of
                None \<Rightarrow> (Raised (KeyError ''fig''), s')
              | Some fig \<Rightarrow>
                  (case plotly_chart_check w fig of
                     Returned u \<Rightarrow> (Returned (), s'\<lparr>page := page s' @ [PlotlyChart fig]\<rparr>)
                   | Raised e \<Rightarrow> (Raised e, s')
                   | Hangs \<Rightarrow> (Hangs, s')))
         | Raised e \<Rightarrow> (Raised e, s')
         | Hangs \<Rightarrow> (Hangs, s'))"
    by (intro revenue_trend_after_answer) blast+
  then show "fst (revenue_trend w symbol financials s) =
           (case run_program w (clean_python_code content)
                   (\<lambda>name. if name = ''__builtins__'' then Some builtins_module
                           else members w builtins_module name)
                   empty_dict of
              Returned exec_locals \<Rightarrow>
                (case exec_locals ''fig'' of
                   None \<Rightarrow> Raised (KeyError ''fig'')
                 | Some fig \<Rightarrow> and_then (plotly_chart_check w fig) (\<lambda>u. Returned ()))
            | Raised e \<Rightarrow> Raised e
            | Hangs \<Rightarrow> Hangs)"
    by (simp add: py_exec_def scope Let_def and_then_def split: outcome.splits option.splits)
qed

text \<open>
  The amended C1 in the sample world: a program that reads \<^verbatim>\<open>financials\<close> dies with a
  NameError, and a program that reads \<^verbatim>\<open>open\<close> gets the built-in.
\<close>

theorem executed_program_sees_builtins_only_witness:
  "getitems two_quarters_frame
     [''date'', ''revenue'', ''total_liabilities'', ''total_equity'', ''total_assets'',
      ''DER'', ''asset_turnover''] = Returned two_quarters_frame
   \<and> fst (revenue_trend (sample_world two_quarters (answers ''fig = financials''))
            ''BBCA'' two_quarters_frame fresh)
     = Raised (ProgramError ''NameError: financials'')
   \<and> fst (revenue_trend (sample_world two_quarters (answers ''fig = open''))
            ''BBCA'' two_quarters_frame fresh)
     = Raised (ChartError ''open'')"
proof -
  have c1: "clean_python_code ''fig = financials'' = ''fig = financials''"
    by code_simp
  have c2: "clean_python_code ''fig = open'' = ''fig = open''"
    by code_simp
  have 1: "fst (revenue_trend (sample_world two_quarters (answers ''fig = financials''))
            ''BBCA'' two_quarters_frame fresh)
     = Raised (ProgramError ''NameError: financials'')"
    using executed_program_sees_builtins_only
      [THEN conjunct2, rule_format,
       of two_quarters_frame two_quarters_frame
          "sample_world two_quarters (answers ''fig = financials'')" fresh
          "''fig = financials''" "''BBCA''"]
    by (simp add: sample_data_sample answers_def del: getitems.simps add: c1 assignment_program_def sample_members_def
        some_builtins_def builtins_module_def empty_dict_def)
  have 2: "fst (revenue_trend (sample_world two_quarters (answers ''fig = open''))
            ''BBCA'' two_quarters_frame fresh)
     = Raised (ChartError ''open'')"
    using executed_program_sees_builtins_only
      [THEN conjunct2, rule_format,
       of two_quarters_frame two_quarters_frame
          "sample_world two_quarters (answers ''fig = open'')" fresh
          "''fig = open''" "''BBCA''"]
    by (simp add: sample_data_sample answers_def del: getitems.simps add: c2 assignment_program_def sample_members_def
        some_builtins_def builtins_module_def accepts_objects_def empty_dict_def)
  from sample_data_sample 1 2 show ?thesis by blast
qed

text \<open>
  C1 as stated fails: \<^verbatim>\<open>open\<close> and \<^verbatim>\<open>__import__\<close> are available to the executed program
  although the executor injected neither (its dictionaries are empty), and the program
  \<^verbatim>\<open>fig = open\<close> ends with the built-in \<^verbatim>\<open>open\<close> in its hands.
\<close>

theorem executed_program_reaches_open:
  "exec_scope (sample_world two_quarters (answers ''fig = open'')) empty_dict empty_dict ''open''
     = Some (Builtin ''open'')
   \<and> exec_scope (sample_world two_quarters (answers ''fig = open'')) empty_dict empty_dict
       ''__import__'' = Some (Builtin ''__import__'')
   \<and> empty_dict ''open'' = None
   \<and> py_exec (sample_world two_quarters (answers ''fig = open'')) ''fig = open''
       empty_dict empty_dict
     = Returned (empty_dict(''fig'' \<mapsto> Builtin ''open''))"
  by (simp add: exec_scope_empty py_exec_def assignment_program_def sample_members_def
      some_builtins_def builtins_module_def)

text \<open>
  C4. When the generated program ends without binding \<^verbatim>\<open>fig\<close>, \<^verbatim>\<open>revenue_trend\<close> fails:
  line 203 raises KeyError for \<^verbatim>\<open>fig\<close> (the failure the specification files under
  ExecutionError). The page has the subheader of the panel and no chart, and no value
  is returned to the caller.
\<close>

theorem missing_fig_raises:
  assumes "getitems financials
             [''date'', ''revenue'', ''total_liabilities'', ''total_equity'', ''total_assets'',
              ''DER'', ''asset_turnover''] = Returned data_sample"
    and "groq w (sent s) (revenue_trend_prompt (frame_str w data_sample)) = Returned content"
    and "py_exec w (clean_python_code content) empty_dict empty_dict = Returned exec_locals"
    and "exec_locals ''fig'' = None"
  shows "revenue_trend w symbol financials s =
           (Raised (KeyError ''fig''),
            s\<lparr>sent := sent s @ [revenue_trend_prompt (frame_str w data_sample)],
              page := page s @ [Subheader ''Visualisasi Tren Keuangan'']\<rparr>)"
  unfolding revenue_trend_after_answer [OF assms(1,2)] using assms(3,4) by (simp add: Let_def)

theorem missing_fig_raises_witness:
  "py_exec (sample_world two_quarters (answers ''x = len'')) (clean_python_code ''x = len'')
       empty_dict empty_dict
     = Returned (empty_dict(''x'' \<mapsto> Builtin ''len''))
   \<and> revenue_trend (sample_world two_quarters (answers ''x = len'')) ''BBCA''
       two_quarters_frame fresh
     = (Raised (KeyError ''fig''),
        \<lparr>page = [Subheader ''Visualisasi Tren Keuangan''],
         sent = [revenue_trend_prompt (column_names two_quarters_frame)]\<rparr>)"
proof -
  have c: "clean_python_code ''x = len'' = ''x = len''"
    by code_simp
  have e: "py_exec (sample_world two_quarters (answers ''x = len'')) (clean_python_code ''x = len'')
       empty_dict empty_dict
     = Returned (empty_dict(''x'' \<mapsto> Builtin ''len''))"
    unfolding c
    by (simp add: exec_scope_empty py_exec_def assignment_program_def sample_members_def
        some_builtins_def builtins_module_def)
  have "revenue_trend (sample_world two_quarters (answers ''x = len'')) ''BBCA''
       two_quarters_frame fresh
     = (Raised (KeyError ''fig''),
        fresh\<lparr>sent := sent fresh @ [revenue_trend_prompt
                   (frame_str (sample_world two_quarters (answers ''x = len'')) two_quarters_frame)],
              page := page fresh @ [Subheader ''Visualisasi Tren Keuangan'']\<rparr>)"
    by (rule missing_fig_raises [OF sample_data_sample _ e]) (simp_all add: answers_def)
  then have "revenue_trend (sample_world two_quarters (answers ''x = len'')) ''BBCA''
       two_quarters_frame fresh
     = (Raised (KeyError ''fig''),
        \<lparr>page = [Subheader ''Visualisasi Tren Keuangan''],
         sent = [revenue_trend_prompt (column_names two_quarters_frame)]\<rparr>)"
    by (simp add: fresh_def)
  with e show ?thesis by (rule conjI)
qed

subsection \<open>The panels of \<^verbatim>\<open>main\<close>\<close>

text \<open>
  C5, as amended. The panels run in the order summary, visualization, trend, risk,
  and nothing catches an exception: a failure in a panel ends \<^verbatim>\<open>main\<close> with that
  exception, in the session the panel left. The panels before it are rendered and stay
  rendered; the panels after it never run. So a failure of the risk call, the last,
  leaves the other three complete and renders nothing of the risk panel.
\<close>

theorem panel_failure_ends_main:
  "(financial_summary w symbol s = (Raised e, s1) \<longrightarrow> main w symbol True s = (Raised e, s1))
   \<and> (financial_summary w symbol s = (Returned f, s1)
        \<and> revenue_trend w symbol f (render (Markdown ''---'') s1) = (Raised e, s2)
      \<longrightarrow> main w symbol True s = (Raised e, s2))
   \<and> (financial_summary w symbol s = (Returned f, s1)
        \<and> revenue_trend w symbol f (render (Markdown ''---'') s1) = (Returned (), s2)
        \<and> trend_analysis w f (render (Markdown ''---'') s2) = (Raised e, s3)
      \<longrightarrow> main w symbol True s = (Raised e, s3))
   \<and> (financial_summary w symbol s = (Returned f, s1)
        \<and> revenue_trend w symbol f (render (Markdown ''---'') s1) = (Returned (), s2)
        \<and> trend_analysis w f (render (Markdown ''---'') s2) = (Returned (), s3)
        \<and> risk_analysis w f s3 = (Raised e, s4)
      \<longrightarrow> main w symbol True s = (Raised e, s4) \<and> page s4 = page s3)"
proof (intro conjI impI)
  assume "financial_summary w symbol s = (Raised e, s1)"
  then show "main w symbol True s = (Raised e, s1)"
    by (simp add: main_def)
next
  assume "financial_summary w symbol s = (Returned f, s1)
        \<and> revenue_trend w symbol f (render (Markdown ''---'') s1) = (Raised e, s2)"
  then show "main w symbol True s = (Raised e, s2)"
    by (simp add: main_def)
next
  assume "financial_summary w symbol s = (Returned f, s1)
        \<and> revenue_trend w symbol f (render (Markdown ''---'') s1) = (Returned (), s2)
        \<and> trend_analysis w f (render (Markdown ''---'') s2) = (Raised e, s3)"
  then show "main w symbol True s = (Raised e, s3)"
    by (simp add: main_def)
next
  assume a: "financial_summary w symbol s = (Returned f, s1)
        \<and> revenue_trend w symbol f (render (Markdown ''---'') s1) = (Returned (), s2)
        \<and> trend_analysis w f (render (Markdown ''---'') s2) = (Returned (), s3)
        \<and> risk_analysis w f s3 = (Raised e, s4)"
  then show "main w symbol True s = (Raised e, s4)"
    by (simp add: main_def)
  from a show "page s4 = page s3"
    by (blast dest: risk_analysis_Raised)
qed

text \<open>
  The amended C5 in the sample world, with the service failing at its fourth call
  (risk) and at its second (visualization).
\<close>

theorem panel_failure_ends_main_witness:
  "fst (main (sample_world two_quarters (fails_at 3 fenced_fig)) ''BBCA'' True fresh)
     = Raised (ServiceError ''503 Service Unavailable'')
   \<and> page (snd (main (sample_world two_quarters (fails_at 3 fenced_fig)) ''BBCA'' True fresh))
     = [Subheader ''Ringkasan Keuangan'', Markdown fenced_fig, Markdown ''---'',
        Subheader ''Visualisasi Tren Keuangan'', PlotlyChart (Object ''{}''), Markdown ''---'',
        Subheader ''Interpretasi Tren Keuangan'', Markdown fenced_fig]
   \<and> fst (main (sample_world two_quarters (fails_at 1 fenced_fig)) ''BBCA'' True fresh)
     = Raised (ServiceError ''503 Service Unavailable'')
   \<and> page (snd (main (sample_world two_quarters (fails_at 1 fenced_fig)) ''BBCA'' True fresh))
     = [Subheader ''Ringkasan Keuangan'', Markdown fenced_fig, Markdown ''---'']"
proof -
  let ?W = "sample_world two_quarters (fails_at 3 fenced_fig)"
  let ?V = "sample_world two_quarters (fails_at 1 fenced_fig)"
  let ?e = "ServiceError ''503 Service Unavailable''"
  let ?p1 = "take 607 summary_prompt @ column_names two_quarters_frame @ drop 613 summary_prompt"
  let ?p2 = "revenue_trend_prompt (column_names two_quarters_frame)"
  let ?p3 = "take 274 trend_prompt @ column_names two_quarters_frame @ drop 280 trend_prompt"
  let ?p4 = "take 324 risk_prompt @ column_names two_quarters_frame @ drop 330 risk_prompt"
  let ?page1 = "[Subheader ''Ringkasan Keuangan'', Markdown fenced_fig]"
  let ?page2 = "?page1 @ [Markdown ''---'', Subheader ''Visualisasi Tren Keuangan'',
                  PlotlyChart (Object ''{}'')]"
  let ?page3 = "?page2 @ [Markdown ''---'', Subheader ''Interpretasi Tren Keuangan'',
                  Markdown fenced_fig]"
  let ?s1 = "\<lparr>page = ?page1, sent = [?p1]\<rparr>"
  let ?s2 = "\<lparr>page = ?page2, sent = [?p1, ?p2]\<rparr>"
  let ?s3 = "\<lparr>page = ?page3, sent = [?p1, ?p2, ?p3]\<rparr>"
  let ?s4 = "\<lparr>page = ?page3, sent = [?p1, ?p2, ?p3, ?p4]\<rparr>"
  have a1: "financial_summary ?W ''BBCA'' fresh = (Returned two_quarters_frame, ?s1)"
    by (simp add: sample_summary fails_at_def fresh_def render_def)
  have a2: "revenue_trend ?W ''BBCA'' two_quarters_frame (render (Markdown ''---'') ?s1)
              = (Returned (), ?s2)"
    by (subst sample_visual) (simp_all add: fails_at_def render_def)
  have a3: "trend_analysis ?W two_quarters_frame (render (Markdown ''---'') ?s2)
              = (Returned (), ?s3)"
    by (simp add: sample_trend fails_at_def render_def)
  have a4: "risk_analysis ?W two_quarters_frame ?s3 = (Raised ?e, ?s4)"
    by (simp add: sample_risk fails_at_def)
  have w: "main ?W ''BBCA'' True fresh = (Raised ?e, ?s4)"
    using panel_failure_ends_main
      [of ?W "''BBCA''" fresh ?e ?s1 two_quarters_frame ?s2 ?s3 ?s4] a1 a2 a3 a4
    by blast
  let ?t2 = "\<lparr>page = ?page1 @ [Markdown ''---''], sent = [?p1, ?p2]\<rparr>"
  have b1: "financial_summary ?V ''BBCA'' fresh = (Returned two_quarters_frame, ?s1)"
    by (simp add: sample_summary fails_at_def fresh_def render_def)
  have b2: "revenue_trend ?V ''BBCA'' two_quarters_frame (render (Markdown ''---'') ?s1)
              = (Raised ?e, ?t2)"
    unfolding revenue_trend_def sample_data_sample
    by (simp add: llm_invoke_def fails_at_def render_def)
  have v: "main ?V ''BBCA'' True fresh = (Raised ?e, ?t2)"
    using panel_failure_ends_main
      [of ?V "''BBCA''" fresh ?e ?s1 two_quarters_frame ?t2] b1 b2
    by blast
  show ?thesis unfolding w v by simp
qed

text \<open>
  C5 as stated fails: when only the first call of the service fails (the summary's),
  \<^verbatim>\<open>main\<close> ends with nothing rendered and no further call made, although the trend
  panel, run from there, completes.
\<close>

theorem summary_failure_stops_every_panel:
  "fst (main (sample_world two_quarters (fails_at 0 fenced_fig)) ''BBCA'' True fresh)
     = Raised (ServiceError ''503 Service Unavailable'')
   \<and> page (snd (main (sample_world two_quarters (fails_at 0 fenced_fig)) ''BBCA'' True fresh)) = []
   \<and> length (sent (snd (main (sample_world two_quarters (fails_at 0 fenced_fig))
                             ''BBCA'' True fresh))) = 1
   \<and> fst (trend_analysis (sample_world two_quarters (fails_at 0 fenced_fig)) two_quarters_frame
            (snd (main (sample_world two_quarters (fails_at 0 fenced_fig)) ''BBCA'' True fresh)))
     = Returned ()"
proof -
  have m: "main (sample_world two_quarters (fails_at 0 fenced_fig)) ''BBCA'' True fresh
           = (Raised (ServiceError ''503 Service Unavailable''),
              \<lparr>page = [],
               sent = [take 607 summary_prompt @ column_names two_quarters_frame
                        @ drop 613 summary_prompt]\<rparr>)"
    by (simp add: main_def sample_summary fails_at_def fresh_def)
  show ?thesis unfolding m by (simp add: sample_trend fails_at_def)
qed
end
